theory Spec2Isabelle
  imports Complex_Main
begin

section \<open>Association runs: constants and the stubborn-tab counter\<close>

text \<open>
  The constants of the association functions, as the source declares them. JavaScript
  numbers are modelled as rationals: the quotient below is the exact quotient, as
  \<^verbatim>\<open>15000 / 1000\<close> is in the source.
\<close>

definition ASSOCIATE_PAGES_CHECK_INTERVAL_MS :: rat where
  "ASSOCIATE_PAGES_CHECK_INTERVAL_MS = 1000"

definition ASSOCIATE_STUBBORN_TAB_FALLBACK_THRESHOLD_MS :: rat where
  "ASSOCIATE_STUBBORN_TAB_FALLBACK_THRESHOLD_MS = 15000"

definition ASSOCIATE_STUBBORN_TAB_FALLBACK_THRESHOLD_ITERATIONS :: rat where
  "ASSOCIATE_STUBBORN_TAB_FALLBACK_THRESHOLD_ITERATIONS =
     ASSOCIATE_STUBBORN_TAB_FALLBACK_THRESHOLD_MS / ASSOCIATE_PAGES_CHECK_INTERVAL_MS"

text \<open>
  \<^verbatim>\<open>associationStubbornTabIds\<close> is an object used as a table from tab id to a count.
  \<^verbatim>\<open>(associationStubbornTabIds[tabId] || 0)\<close> reads a missing entry (and a stored 0) as 0.
\<close>

type_synonym stubborn_table = "nat \<rightharpoonup> nat"

definition stubborn_get :: "stubborn_table \<Rightarrow> nat \<Rightarrow> nat" where
  "stubborn_get tbl tabId = (case tbl tabId of None \<Rightarrow> 0 | Some c \<Rightarrow> c)"

text \<open>
  The loop of \<^verbatim>\<open>associatePagesCheck\<close> over \<^verbatim>\<open>runInfo.tabIds\<close>: each pending tab id has
  its count read and incremented; at or above the threshold the tab is handed to the
  fallback association (\<^verbatim>\<open>chrome.tabs.get\<close> then \<^verbatim>\<open>associateTabToPageNode\<close>) and the
  table is left as it is, below it the incremented count is stored. The result is the
  table after the loop and the tab ids handed to the fallback, in the order of the loop.
\<close>

fun check_tabIds :: "nat list \<Rightarrow> stubborn_table \<Rightarrow> stubborn_table \<times> nat list" where
  "check_tabIds [] tbl = (tbl, [])"
| "check_tabIds (tabId # rest) tbl =
     (let count = stubborn_get tbl tabId + 1 in
      if of_nat count \<ge> ASSOCIATE_STUBBORN_TAB_FALLBACK_THRESHOLD_ITERATIONS
      then (case check_tabIds rest tbl of (tbl', fb) \<Rightarrow> (tbl', tabId # fb))
      else check_tabIds rest (tbl(tabId \<mapsto> count)))"



section \<open>Strings and the regular expressions of the source\<close>

text \<open>
  JavaScript strings are modelled as \<^typ>\<open>string\<close>. The regular expressions of the
  source are written with matchers in continuation style: a matcher takes what must
  match the rest of the string and the string, and holds when some way of matching
  exists, which is what \<^verbatim>\<open>RegExp.test\<close> and a truthy \<^verbatim>\<open>String.match\<close> decide. The dot
  of a JavaScript regular expression matches any character but a line terminator.
\<close>

definition line_terminator :: "char \<Rightarrow> bool" where
  "line_terminator c = (c = CHR 0x0A \<or> c = CHR 0x0D)"

definition accept :: "string \<Rightarrow> bool" where
  "accept s = True"

definition lit :: "string \<Rightarrow> (string \<Rightarrow> bool) \<Rightarrow> string \<Rightarrow> bool" where
  "lit p k s = (take (length p) s = p \<and> k (drop (length p) s))"

definition opt_lit :: "string \<Rightarrow> (string \<Rightarrow> bool) \<Rightarrow> string \<Rightarrow> bool" where
  "opt_lit p k s = (lit p k s \<or> k s)"

definition alt :: "(string \<Rightarrow> bool) \<Rightarrow> (string \<Rightarrow> bool) \<Rightarrow> string \<Rightarrow> bool" where
  "alt k1 k2 s = (k1 s \<or> k2 s)"

definition dot_one :: "(string \<Rightarrow> bool) \<Rightarrow> string \<Rightarrow> bool" where
  "dot_one k s = (case s of [] \<Rightarrow> False | c # cs \<Rightarrow> (if line_terminator c then False else k cs))"

primrec dot_star :: "(string \<Rightarrow> bool) \<Rightarrow> string \<Rightarrow> bool" where
  "dot_star k [] = k []"
| "dot_star k (c # cs) = (k (c # cs) \<or> (if line_terminator c then False else dot_star k cs))"

definition dot_plus :: "(string \<Rightarrow> bool) \<Rightarrow> string \<Rightarrow> bool" where
  "dot_plus k s = dot_one (dot_star k) s"

definition is_digit :: "char \<Rightarrow> bool" where
  "is_digit c = (of_char (CHR ''0'') \<le> (of_char c :: nat) \<and> (of_char c :: nat) \<le> of_char (CHR ''9''))"

definition is_alnum :: "char \<Rightarrow> bool" where
  "is_alnum c =
     ((of_char (CHR ''a'') \<le> (of_char c :: nat) \<and> (of_char c :: nat) \<le> of_char (CHR ''z''))
      \<or> (of_char (CHR ''A'') \<le> (of_char c :: nat) \<and> (of_char c :: nat) \<le> of_char (CHR ''Z''))
      \<or> is_digit c)"

primrec digit_star :: "(string \<Rightarrow> bool) \<Rightarrow> string \<Rightarrow> bool" where
  "digit_star k [] = k []"
| "digit_star k (c # cs) = (k (c # cs) \<or> (is_digit c \<and> digit_star k cs))"

definition digit_plus :: "(string \<Rightarrow> bool) \<Rightarrow> string \<Rightarrow> bool" where
  "digit_plus k s = (case s of [] \<Rightarrow> False | c # cs \<Rightarrow> is_digit c \<and> digit_star k cs)"

text \<open>
  \<^verbatim>\<open>isScriptableUrl\<close>: the url is not empty, does not match
  \<^verbatim>\<open>^(about|file|view-source|chrome.*):\<close> and does not match
  \<^verbatim>\<open>^https?://chrome.google.com/webstore\<close> (whose dots are regular-expression dots).
\<close>

definition isScriptableUrl :: "string \<Rightarrow> bool" where
  "isScriptableUrl u =
     (\<not> (u = []
         \<or> alt (lit ''about'' (lit '':'' accept))
              (alt (lit ''file'' (lit '':'' accept))
                (alt (lit ''view-source'' (lit '':'' accept))
                     (lit ''chrome'' (dot_star (lit '':'' accept))))) u
         \<or> lit ''http'' (opt_lit ''s'' (lit ''://chrome'' (dot_one (lit ''google''
              (dot_one (lit ''com/webstore'' accept)))))) u))"

text \<open>
  \<^verbatim>\<open>CHROME_BLANKABLE_REFERRER_REGEXP\<close>:
  \<^verbatim>\<open>/^http.+google.+\/(search\?.*sugexp=chrome,mod=\d+\&sourceid=chrome|url\?.*source=web)/\<close>.
\<close>

definition CHROME_BLANKABLE_REFERRER_REGEXP :: "string \<Rightarrow> bool" where
  "CHROME_BLANKABLE_REFERRER_REGEXP =
     lit ''http'' (dot_plus (lit ''google'' (dot_plus (lit ''/''
       (alt (lit ''search?'' (dot_star (lit ''sugexp=chrome,mod=''
               (digit_plus (lit ''&sourceid=chrome'' accept)))))
            (lit ''url?'' (dot_star (lit ''source=web'' accept))))))))"

text \<open>
  \<^verbatim>\<open>isGoogleSearchUrl\<close>: \<^verbatim>\<open>/^https?:\/\/.*google.*\/search\?q=/\<close>.
\<close>

definition isGoogleSearchUrl :: "string \<Rightarrow> bool" where
  "isGoogleSearchUrl =
     lit ''http'' (opt_lit ''s'' (lit ''://'' (dot_star (lit ''google''
       (dot_star (lit ''/search?q='' accept))))))"

text \<open>
  \<^verbatim>\<open>getGoogleTestUrl\<close>: every \<^verbatim>\<open>sei=[a-zA-Z0-9]+\<close> is removed, left to right and
  greedily, then the first \<^verbatim>\<open>#\<close> that is followed by at least one character and no
  line terminator up to the end of the string is removed with all that follows it.
\<close>

function remove_sei :: "string \<Rightarrow> string" where
  "remove_sei [] = []"
| "remove_sei (c # cs) =
     (if take 4 (c # cs) = ''sei='' \<and> takeWhile is_alnum (drop 4 (c # cs)) \<noteq> []
      then remove_sei (dropWhile is_alnum (drop 4 (c # cs)))
      else c # remove_sei cs)"
  by pat_completeness auto
termination
proof (relation "measure length")
  show "wf (measure length)" by simp
next
  fix c :: char and cs :: string
  have "length (dropWhile is_alnum (drop 4 (c # cs))) \<le> length (drop 4 (c # cs))"
    by (rule length_dropWhile_le)
  then show "(dropWhile is_alnum (drop 4 (c # cs)), c # cs) \<in> measure length"
    by simp
next
  fix c :: char and cs :: string
  show "(cs, c # cs) \<in> measure length" by simp
qed

primrec remove_hash :: "string \<Rightarrow> string" where
  "remove_hash [] = []"
| "remove_hash (c # cs) =
     (if c = CHR ''#'' \<and> cs \<noteq> [] \<and> list_all (\<lambda>d. \<not> line_terminator d) cs
      then [] else c # remove_hash cs)"

definition getGoogleTestUrl :: "string \<Rightarrow> string" where
  "getGoogleTestUrl u = remove_hash (remove_sei u)"

section \<open>Tabs, nodes and the tree store\<close>

text \<open>
  A tab as \<^verbatim>\<open>chrome.tabs\<close> reports it, with the fields the association functions read.
\<close>

record tab =
  tab_id :: nat
  tab_windowId :: nat
  tab_index :: nat
  tab_url :: string
  tab_pinned :: bool
  tab_incognito :: bool
  tab_active :: bool

text \<open>
  A node of the page tree, with the fields the association functions read or write.
  \<^verbatim>\<open>instanceof PageNode\<close>, \<^verbatim>\<open>instanceof WindowNode\<close> and \<^verbatim>\<open>elemType\<close> are the node's kind.
  \<^verbatim>\<open>null\<close> and \<^verbatim>\<open>undefined\<close> ids and indexes are \<^const>\<open>None\<close>, so that \<^verbatim>\<open>==\<close> between two
  of them is equality of options: a number never equals \<^verbatim>\<open>null\<close>, and \<^verbatim>\<open>null\<close> equals
  \<^verbatim>\<open>null\<close> and \<^verbatim>\<open>undefined\<close>.
\<close>

datatype kind = PageNode | WindowNode | OtherNode

record elem =
  kind :: kind
  nid :: string
  hibernated :: bool
  restorable :: bool
  chromeId :: "nat option"
  windowId :: "nat option"
  index :: "nat option"
  url :: string
  title :: string
  referrer :: string
  historylength :: nat
  pinned :: bool
  incognito :: bool

text \<open>\<^verbatim>\<open>PageNode.prototype.isTab\<close> is \<^verbatim>\<open>!this.hibernated\<close>; other kinds of node are no tabs.\<close>

definition isTab :: "elem \<Rightarrow> bool" where
  "isTab e = (kind e = PageNode \<and> \<not> hibernated e)"

datatype node = Node (node_elem: elem) (node_children: "node list")

text \<open>
  Modelled from the spec: the tree store (\<^verbatim>\<open>tree\<close>, a \<^verbatim>\<open>DataTree\<close>) is not among the
  source files. The spec has it expose lookup and filter by a predicate over an optional
  subtree scope, and a reduce over a subtree. The model keeps the children of the root
  as a list of nodes and visits a subtree parent first, children in order.
\<close>

primrec flat :: "node \<Rightarrow> node list" where
  "flat (Node e cs) = Node e cs # concat (map flat cs)"

definition flatten :: "node list \<Rightarrow> node list" where
  "flatten ns = concat (map flat ns)"

text \<open>\<^verbatim>\<open>tree.filter(fn, inArray)\<close> and \<^verbatim>\<open>tree.getNode(fn)\<close> over the elements of a scope.\<close>

definition tree_filter :: "(elem \<Rightarrow> bool) \<Rightarrow> node list \<Rightarrow> elem list" where
  "tree_filter P ns = filter P (map node_elem (flatten ns))"

definition getNodeByChromeId :: "nat \<Rightarrow> node list \<Rightarrow> node option" where
  "getNodeByChromeId cid ns = find (\<lambda>n. chromeId (node_elem n) = Some cid) (flatten ns)"

text \<open>
  \<^verbatim>\<open>node.topParent()\<close>: every node of the tree paired with its ancestor that is a child
  of the root (a child of the root is paired with itself).
\<close>

definition with_topParent :: "node list \<Rightarrow> (elem \<times> elem) list" where
  "with_topParent ns = concat (map (\<lambda>t. map (\<lambda>n. (node_elem t, node_elem n)) (flat t)) ns)"

section \<open>Matching a tab to a page node\<close>

text \<open>
  The criteria object of \<^verbatim>\<open>findPageNodeForAssociation\<close>. A criterion that is
  \<^verbatim>\<open>undefined\<close> is \<^const>\<open>None\<close>; \<^verbatim>\<open>notMatchingNode\<close> names the excluded node by its id.
\<close>

record params =
  p_mustBeHibernated :: bool
  p_mustBeRestorable :: bool
  p_topParentMustBeRealOrRestorableWindow :: bool
  p_url :: string
  p_title :: "string option"
  p_referrer :: "string option"
  p_historylength :: "nat option"
  p_pinned :: "bool option"
  p_incognito :: "bool option"
  p_notMatchingNode :: "string option"

text \<open>
  \<^verbatim>\<open>fallbackReferrer\<close> of the criteria and \<^verbatim>\<open>fallbackNodeReferrer\<close> of a node: a
  non-empty referrer that matches the blankable pattern is replaced by the empty string.
\<close>

definition fallbackReferrer :: "string \<Rightarrow> string" where
  "fallbackReferrer r = (if r \<noteq> [] \<and> CHROME_BLANKABLE_REFERRER_REGEXP r then [] else r)"

text \<open>
  \<^verbatim>\<open>testNodeForAssociation\<close>, the predicate \<^verbatim>\<open>findPageNodeForAssociation\<close> hands to the
  tree, on a node and its top parent, branch by branch as the source has it.
\<close>

definition urlMatch :: "params \<Rightarrow> elem \<Rightarrow> bool" where
  "urlMatch ps e =
     (if \<not> isGoogleSearchUrl (p_url ps) then p_url ps = url e
      else isGoogleSearchUrl (url e) \<and> getGoogleTestUrl (url e) = getGoogleTestUrl (p_url ps))"

definition matched :: "params \<Rightarrow> elem \<Rightarrow> bool" where
  "matched ps e =
     ((\<not> p_mustBeHibernated ps \<or> hibernated e)
      \<and> (\<not> p_mustBeRestorable ps \<or> restorable e)
      \<and> urlMatch ps e
      \<and> (case p_title ps of None \<Rightarrow> True | Some t \<Rightarrow> t = [] \<or> title e = t)
      \<and> (case p_incognito ps of None \<Rightarrow> True | Some b \<Rightarrow> incognito e = b)
      \<and> (case p_pinned ps of None \<Rightarrow> True | Some b \<Rightarrow> pinned e = b)
      \<and> (case p_historylength ps of None \<Rightarrow> True | Some h \<Rightarrow> historylength e = h)
      \<and> (case p_notMatchingNode ps of None \<Rightarrow> True | Some i \<Rightarrow> nid e \<noteq> i))"

definition referrerMatch :: "params \<Rightarrow> elem \<Rightarrow> bool" where
  "referrerMatch ps e =
     (case p_referrer ps of
        None \<Rightarrow> True
      | Some r \<Rightarrow>
          if r = referrer e then True
          else if p_pinned ps = Some True \<and> pinned e then True
          else if fallbackReferrer r = fallbackReferrer (referrer e) then True
          else False)"

definition testNodeForAssociation :: "params \<Rightarrow> elem \<times> elem \<Rightarrow> bool" where
  "testNodeForAssociation ps = (\<lambda>(topParent, e).
     if kind e \<noteq> PageNode then False
     else if \<not> matched ps e then False
     else if p_topParentMustBeRealOrRestorableWindow ps
             \<and> (kind topParent \<noteq> WindowNode \<or> (\<not> restorable topParent \<and> hibernated topParent)) then False
     else referrerMatch ps e)"

text \<open>
  \<^verbatim>\<open>findPageNodeForAssociation(params)\<close> returns the first node of the tree that passes
  the test, \<^verbatim>\<open>findPageNodeForAssociation(params, true)\<close> all of them.
\<close>

definition findPageNodeForAssociation :: "params \<Rightarrow> node list \<Rightarrow> elem option" where
  "findPageNodeForAssociation ps tr =
     map_option snd (find (testNodeForAssociation ps) (with_topParent tr))"

definition findAllPageNodesForAssociation :: "params \<Rightarrow> node list \<Rightarrow> elem list" where
  "findAllPageNodesForAssociation ps tr =
     map snd (filter (testNodeForAssociation ps) (with_topParent tr))"

section \<open>The association run\<close>

text \<open>
  The globals of the association functions, the tree, and a log of the calls that leave
  the functions modelled here: calls to \<^verbatim>\<open>chrome.tabs\<close>, to the content script
  (\<^verbatim>\<open>getPageDetails\<close>), to \<^verbatim>\<open>TimeoutManager\<close>, to the tree's mutators, and to
  \<^verbatim>\<open>restoreAssociatedPage\<close>, \<^verbatim>\<open>rectifyAssociations\<close> and \<^verbatim>\<open>fixBadNodes\<close>. The tree of a
  state is the tree as a function finds it; what it asks the tree to change is in the log.
\<close>

record runInfo =
  runId :: string
  total :: nat
  count :: nat
  tabIds :: "nat list"

datatype call =
    RestoreAssociatedPage tab elem
  | GetPageDetails nat string "string option"
  | AddTabToWindow tab
  | AddTabToWindowThenUpdate tab string nat
  | ChromeTabsQueryWindow nat tab
  | ChromeTabsQueryAll
  | ChromeTabsGet nat string
  | TimeoutReset string
  | TimeoutClear string
  | RebuildTabIndex
  | RectifyAssociations nat
  | FixBadNodes

record state =
  associationRuns :: "string \<rightharpoonup> runInfo"
  associationStubbornTabIds :: stubborn_table
  associationConcurrentRuns :: int
  tree :: "node list"
  calls :: "call list"

definition do_call :: "call list \<Rightarrow> state \<Rightarrow> state" where
  "do_call cs st = st\<lparr>calls := calls st @ cs\<rparr>"

text \<open>
  \<^verbatim>\<open>Array.prototype.indexOf\<close> (-1 when the value is absent) and
  \<^verbatim>\<open>Array.prototype.splice(start, deleteCount)\<close>: a negative start counts from the end,
  and \<^verbatim>\<open>deleteCount\<close> elements are removed from the start on.
\<close>

primrec indexOf :: "'a list \<Rightarrow> 'a \<Rightarrow> int" where
  "indexOf [] x = -1"
| "indexOf (y # ys) x = (if y = x then 0 else (let i = indexOf ys x in if i < 0 then -1 else i + 1))"

definition splice :: "int \<Rightarrow> nat \<Rightarrow> 'a list \<Rightarrow> 'a list" where
  "splice start deleteCount xs =
     (let len = int (length xs);
          actualStart = nat (if start < 0 then max (len + start) 0 else min start len)
      in take actualStart xs @ drop (actualStart + deleteCount) xs)"

text \<open>
  \<^verbatim>\<open>tryFastAssociateTab(tab, mustBeRestorable)\<close>. The nodes filtered are the descendants
  of the node whose \<^verbatim>\<open>chromeId\<close> is the tab's \<^verbatim>\<open>windowId\<close> when the tree has one, the
  whole tree otherwise.
\<close>

definition fastTest :: "tab \<Rightarrow> bool \<Rightarrow> elem \<Rightarrow> bool" where
  "fastTest t mustBeRestorable e =
     (kind e = PageNode
      \<and> hibernated e
      \<and> (\<not> mustBeRestorable \<or> restorable e)
      \<and> tab_url t = url e
      \<and> Some (tab_index t) = index e
      \<and> tab_incognito t = incognito e
      \<and> tab_pinned t = pinned e)"

definition fastMatches :: "tab \<Rightarrow> bool \<Rightarrow> node list \<Rightarrow> elem list" where
  "fastMatches t mustBeRestorable tr =
     (let inArray = (case getNodeByChromeId (tab_windowId t) tr of
                       Some existingWindow \<Rightarrow> node_children existingWindow
                     | None \<Rightarrow> tr)
      in tree_filter (fastTest t mustBeRestorable) inArray)"

text \<open>
  The candidate set in the spec's words, for comparison: the hibernated page nodes
  (restorable if required) equal to the tab on url, position, incognito and pinned,
  with no scope.
\<close>

definition spec_fastCandidates :: "tab \<Rightarrow> bool \<Rightarrow> node list \<Rightarrow> elem list" where
  "spec_fastCandidates t mustBeRestorable tr = tree_filter (fastTest t mustBeRestorable) tr"

definition tryFastAssociateTab :: "tab \<Rightarrow> bool \<Rightarrow> state \<Rightarrow> elem option \<times> state" where
  "tryFastAssociateTab t mustBeRestorable st =
     (let matches = fastMatches t mustBeRestorable (tree st) in
      if length matches = 1 \<or> (length matches > 0 \<and> \<not> isScriptableUrl (tab_url t))
      then (case matches of
              [] \<Rightarrow> (None, st)
            | match # _ \<Rightarrow>
                (Some match,
                 do_call (RestoreAssociatedPage t match
                          # (if isScriptableUrl (tab_url t)
                             then [GetPageDetails (tab_id t) ''store'' None] else [])) st))
      else (None, st))"

text \<open>
  \<^verbatim>\<open>associateTabToPageNode(runId, tab, referrer, historylength)\<close>. For a run still in
  progress it splices the run's \<^verbatim>\<open>tabIds\<close> at the tab's position with a delete count
  of 0, resets the run's timeout and increments the run's count.
\<close>

definition associateTabToPageNode ::
  "string \<Rightarrow> tab \<Rightarrow> string option \<Rightarrow> nat option \<Rightarrow> state \<Rightarrow> state" where
  "associateTabToPageNode rid t ref hl st =
     (let st1 = (case associationRuns st rid of
                   None \<Rightarrow> st
                 | Some ri \<Rightarrow>
                     do_call [TimeoutReset rid]
                       (st\<lparr>associationRuns := (associationRuns st)(rid \<mapsto>
                              ri\<lparr>tabIds := splice (indexOf (tabIds ri) (tab_id t)) 0 (tabIds ri),
                                 count := count ri + 1\<rparr>)\<rparr>))
      in case getNodeByChromeId (tab_id t) (tree st1) of
           Some existingPage \<Rightarrow> st1
         | None \<Rightarrow>
             (case findPageNodeForAssociation
                     \<lparr>p_mustBeHibernated = True, p_mustBeRestorable = True,
                      p_topParentMustBeRealOrRestorableWindow = True,
                      p_url = tab_url t, p_title = None, p_referrer = ref,
                      p_historylength = hl, p_pinned = Some (tab_pinned t),
                      p_incognito = Some (tab_incognito t), p_notMatchingNode = None\<rparr>
                     (tree st1) of
                None \<Rightarrow>
                  do_call [AddTabToWindowThenUpdate t
                             (case ref of None \<Rightarrow> [] | Some r \<Rightarrow> r)
                             (case hl of None \<Rightarrow> 1 | Some h \<Rightarrow> if h = 0 then 1 else h)] st1
              | Some match \<Rightarrow> do_call [RestoreAssociatedPage t match] st1))"

text \<open>
  \<^verbatim>\<open>tryAssociateTab(runInfo, tab, forceNewTabAssociation)\<close>. \<^verbatim>\<open>isNewTabUrl\<close> is not among
  the source files and is a parameter. \<^verbatim>\<open>runInfo\<close> is the object stored in
  \<^verbatim>\<open>associationRuns\<close> under its \<^verbatim>\<open>runId\<close>, so the model takes the run's id and pushes to the
  stored object. The callback of \<^verbatim>\<open>chrome.tabs.query\<close> runs later and is a function of
  its own; the call is logged.
\<close>

definition push_tabId :: "string \<Rightarrow> nat \<Rightarrow> state \<Rightarrow> state" where
  "push_tabId rid tid st =
     (case associationRuns st rid of
        None \<Rightarrow> st
      | Some ri \<Rightarrow> st\<lparr>associationRuns := (associationRuns st)(rid \<mapsto> ri\<lparr>tabIds := tabIds ri @ [tid]\<rparr>)\<rparr>)"

definition tryAssociateTab ::
  "(string \<Rightarrow> bool) \<Rightarrow> string \<Rightarrow> tab \<Rightarrow> bool \<Rightarrow> state \<Rightarrow> bool \<times> state" where
  "tryAssociateTab isNewTabUrl rid t forceNewTabAssociation st =
     (if tab_incognito t then (False, st)
      else if \<not> forceNewTabAssociation \<and> isNewTabUrl (tab_url t) \<and> tab_index t = 0
              \<and> \<not> tab_pinned t
      then (False, do_call [ChromeTabsQueryWindow (tab_windowId t) t] st)
      else (case tryFastAssociateTab t True st of
              (Some match, st1) \<Rightarrow> (True, st1)
            | (None, st1) \<Rightarrow>
                if isNewTabUrl (tab_url t) then (True, do_call [AddTabToWindow t] st1)
                else if \<not> isScriptableUrl (tab_url t)
                then (True, associateTabToPageNode rid t None None st1)
                else (False, do_call [GetPageDetails (tab_id t) ''associate'' (Some rid)]
                               (push_tabId rid (tab_id t) st1))))"

definition tryAssociateTab_onWindowTabs ::
  "(string \<Rightarrow> bool) \<Rightarrow> string \<Rightarrow> tab \<Rightarrow> tab list \<Rightarrow> state \<Rightarrow> state" where
  "tryAssociateTab_onWindowTabs isNewTabUrl rid t tabs st =
     (if length tabs = 1 then do_call [AddTabToWindow t] st
      else snd (tryAssociateTab isNewTabUrl rid t True st))"

text \<open>
  \<^verbatim>\<open>endAssociationRun\<close>, the synchronous part of \<^verbatim>\<open>startAssociationRun\<close>, and the tick
  \<^verbatim>\<open>associatePagesCheck\<close>.
\<close>

definition CLEANUP_AFTER_ASSOCIATION_RUN_DELAY_MS :: nat where
  "CLEANUP_AFTER_ASSOCIATION_RUN_DELAY_MS = 500"

definition endAssociationRun :: "string \<Rightarrow> state \<Rightarrow> state" where
  "endAssociationRun rid st =
     do_call [RebuildTabIndex, RectifyAssociations CLEANUP_AFTER_ASSOCIATION_RUN_DELAY_MS,
              TimeoutClear rid]
       (st\<lparr>associationRuns := (associationRuns st)(rid := None),
           associationConcurrentRuns := associationConcurrentRuns st - 1\<rparr>)"

definition startAssociationRun :: "state \<Rightarrow> state" where
  "startAssociationRun st =
     (if associationConcurrentRuns st > 0 then st
      else do_call [FixBadNodes, ChromeTabsQueryAll] st)"

definition associatePagesCheck :: "string \<Rightarrow> state \<Rightarrow> state" where
  "associatePagesCheck rid st =
     (case associationRuns st rid of
        None \<Rightarrow> st
      | Some ri \<Rightarrow>
          (case check_tabIds (tabIds ri) (associationStubbornTabIds st) of
             (tbl, fallback) \<Rightarrow>
               startAssociationRun (endAssociationRun rid
                 (do_call (map (\<lambda>tabId. ChromeTabsGet tabId rid) fallback)
                    (st\<lparr>associationStubbornTabIds := tbl\<rparr>)))))"






section \<open>Disambiguation of page nodes by window id\<close>

text \<open>
  \<^verbatim>\<open>disambiguatePageNodesByWindowId\<close> changes fields of page nodes and leaves the shape of
  the tree alone. The nodes are kept as a store: the nodes of the tree in the order the
  tree visits them, each with the position of its top parent in the same list. A node is
  identified by its position, so \<^verbatim>\<open>e !== item\<close> is inequality of positions, and a field
  written through one reference is seen through every other.
\<close>

type_synonym store = "(elem \<times> nat) list"

fun store_from :: "nat \<Rightarrow> node list \<Rightarrow> store" where
  "store_from k [] = []"
| "store_from k (t # ts) =
     map (\<lambda>n. (node_elem n, k)) (flat t) @ store_from (k + length (flat t)) ts"

definition store_of :: "node list \<Rightarrow> store" where
  "store_of tr = store_from 0 tr"

definition elem_at :: "store \<Rightarrow> nat \<Rightarrow> elem" where
  "elem_at st i = fst (st ! i)"

definition topParentChromeId :: "store \<Rightarrow> nat \<Rightarrow> nat option" where
  "topParentChromeId st i = chromeId (fst (st ! snd (st ! i)))"

text \<open>\<^verbatim>\<open>tree.updateNode(node, details)\<close> on the node at a position.\<close>

definition updateNode :: "nat \<Rightarrow> (elem \<Rightarrow> elem) \<Rightarrow> store \<Rightarrow> store" where
  "updateNode i f st = st[i := (f (fst (st ! i)), snd (st ! i))]"

text \<open>
  The decimal digits of a number, and the key of a node:
  \<^verbatim>\<open>[e.url, e.referrer, e.historylength, e.pinned, e.incognito].join('|')\<close>.
\<close>

function toString_nat :: "nat \<Rightarrow> string" where
  "toString_nat n =
     (if n < 10 then [char_of (48 + n)]
      else toString_nat (n div 10) @ [char_of (48 + n mod 10)])"
  by pat_completeness auto
termination
  by (relation "measure id") auto

definition toString_bool :: "bool \<Rightarrow> string" where
  "toString_bool b = (if b then ''true'' else ''false'')"

definition fuzzyKey :: "elem \<Rightarrow> string" where
  "fuzzyKey e = url e @ ''|'' @ referrer e @ ''|'' @ toString_nat (historylength e) @ ''|''
                 @ toString_bool (pinned e) @ ''|'' @ toString_bool (incognito e)"

text \<open>
  The function handed to \<^verbatim>\<open>tree.groupBy\<close>: no key for a node that is no tab or whose
  \<^verbatim>\<open>windowId\<close> equals its top parent's \<^verbatim>\<open>chromeId\<close>.
\<close>

definition groupKey :: "store \<Rightarrow> nat \<Rightarrow> string option" where
  "groupKey st i =
     (if \<not> isTab (elem_at st i) then None
      else if windowId (elem_at st i) = topParentChromeId st i then None
      else Some (fuzzyKey (elem_at st i)))"

text \<open>
  Modelled from the spec: \<^verbatim>\<open>tree.groupBy\<close> is not among the source files. The spec has
  the tree expose a group-by over all nodes; the model collects, for every key, the
  positions of the nodes with that key in the order of the tree, the keys in the order
  of their first node, which is the order \<^verbatim>\<open>for (var g in groups)\<close> follows.
\<close>

fun group_add :: "string \<Rightarrow> nat \<Rightarrow> (string \<times> nat list) list \<Rightarrow> (string \<times> nat list) list" where
  "group_add k i [] = [(k, [i])]"
| "group_add k i ((k', is) # gs) =
     (if k = k' then (k', is @ [i]) # gs else (k', is) # group_add k i gs)"

definition groupBy :: "(nat \<Rightarrow> string option) \<Rightarrow> nat \<Rightarrow> (string \<times> nat list) list" where
  "groupBy key n =
     foldl (\<lambda>gs i. case key i of None \<Rightarrow> gs | Some k \<Rightarrow> group_add k i gs) [] [0..<n]"

text \<open>
  The four filters that look for a node to swap with, in the order the source tries them.
  \<^verbatim>\<open>item\<close> and \<^verbatim>\<open>e\<close> are positions in the store.
\<close>

definition swapFilter1 :: "store \<Rightarrow> nat \<Rightarrow> nat \<Rightarrow> bool" where
  "swapFilter1 st item e =
     (e \<noteq> item \<and> windowId (elem_at st e) = topParentChromeId st item
      \<and> windowId (elem_at st item) = topParentChromeId st e
      \<and> index (elem_at st e) = index (elem_at st item))"

definition swapFilter2 :: "store \<Rightarrow> nat \<Rightarrow> nat \<Rightarrow> bool" where
  "swapFilter2 st item e =
     (e \<noteq> item \<and> windowId (elem_at st e) = topParentChromeId st item
      \<and> windowId (elem_at st item) = topParentChromeId st e)"

definition swapFilter3 :: "store \<Rightarrow> nat \<Rightarrow> nat \<Rightarrow> bool" where
  "swapFilter3 st item e =
     (e \<noteq> item \<and> windowId (elem_at st item) = topParentChromeId st e)"

definition swapFilter4 :: "store \<Rightarrow> nat \<Rightarrow> nat \<Rightarrow> bool" where
  "swapFilter4 st item e =
     (e \<noteq> item \<and> windowId (elem_at st e) = topParentChromeId st item)"

definition swapWith :: "store \<Rightarrow> nat list \<Rightarrow> nat \<Rightarrow> nat list" where
  "swapWith st items item =
     (if filter (swapFilter1 st item) items \<noteq> [] then filter (swapFilter1 st item) items
      else if filter (swapFilter2 st item) items \<noteq> [] then filter (swapFilter2 st item) items
      else if filter (swapFilter3 st item) items \<noteq> [] then filter (swapFilter3 st item) items
      else filter (swapFilter4 st item) items)"

text \<open>
  The three exchanges, each through a temporary and two calls of \<^verbatim>\<open>tree.updateNode\<close>.
\<close>

definition swapFields :: "nat \<Rightarrow> nat \<Rightarrow> store \<Rightarrow> store" where
  "swapFields item other st =
     (let temp = chromeId (elem_at st item);
          st = updateNode item (\<lambda>e. e\<lparr>chromeId := chromeId (elem_at st other)\<rparr>) st;
          st = updateNode other (\<lambda>e. e\<lparr>chromeId := temp\<rparr>) st;
          temp = windowId (elem_at st item);
          st = updateNode item (\<lambda>e. e\<lparr>windowId := windowId (elem_at st other)\<rparr>) st;
          st = updateNode other (\<lambda>e. e\<lparr>windowId := temp\<rparr>) st;
          temp = index (elem_at st item);
          st = updateNode item (\<lambda>e. e\<lparr>index := index (elem_at st other)\<rparr>) st;
          st = updateNode other (\<lambda>e. e\<lparr>index := temp\<rparr>) st
      in st)"

text \<open>
  One pass of the inner loop, for the counter \<^verbatim>\<open>i\<close>: the node worked on is
  \<^verbatim>\<open>items[(i + iterations) % items.length]\<close>. The state carried is the store and
  \<^verbatim>\<open>swapCount\<close>, which is incremented for every node found under the wrong window,
  also when nobody is found to swap with.
\<close>

definition disambiguateItem :: "nat \<Rightarrow> nat list \<Rightarrow> store \<times> nat \<Rightarrow> nat \<Rightarrow> store \<times> nat" where
  "disambiguateItem iterations items = (\<lambda>(st, swapCount) i.
     (let item = items ! ((i + iterations) mod length items) in
      if windowId (elem_at st item) = topParentChromeId st item then (st, swapCount)
      else (case swapWith st items item of
              [] \<Rightarrow> (st, swapCount + 1)
            | other # _ \<Rightarrow> (swapFields item other st, swapCount + 1))))"

definition disambiguateGroup ::
  "nat \<Rightarrow> store \<times> nat \<Rightarrow> string \<times> nat list \<Rightarrow> store \<times> nat" where
  "disambiguateGroup iterations = (\<lambda>(st, swapCount) (g, items).
     if length items < 2 then (st, swapCount)
     else foldl (disambiguateItem iterations items) (st, swapCount) [0..<length items])"

definition disambiguateRound :: "nat \<Rightarrow> store \<Rightarrow> store \<times> nat" where
  "disambiguateRound iterations st =
     foldl (disambiguateGroup iterations) (st, 0) (groupBy (groupKey st) (length st))"

text \<open>
  The function itself, for a given \<^verbatim>\<open>iterations\<close>: a round, then the call of itself with
  \<^verbatim>\<open>iterations - 1\<close> when the round counted a swap and \<^verbatim>\<open>iterations\<close> exceeds 1. The
  result is the store after the last round and the number of rounds run, the latter
  kept to state the bound on them. \<^verbatim>\<open>disambiguatePageNodesByWindowId\<close> takes
  \<^verbatim>\<open>iterations\<close> as the source does, \<^verbatim>\<open>undefined\<close> standing for 3; the source calls it
  with no argument only, and a count is a natural number.
\<close>

function disambiguateRounds :: "nat \<Rightarrow> store \<Rightarrow> store \<times> nat" where
  "disambiguateRounds iterations st =
     (case disambiguateRound iterations st of
        (st', swapCount) \<Rightarrow>
          if swapCount > 0 \<and> iterations > 1
          then (case disambiguateRounds (iterations - 1) st' of (st'', rounds) \<Rightarrow> (st'', rounds + 1))
          else (st', 1))"
  by pat_completeness auto
termination
  by (relation "measure fst") auto

declare disambiguateRounds.simps [simp del]

definition disambiguatePageNodesByWindowId :: "nat option \<Rightarrow> store \<Rightarrow> store \<times> nat" where
  "disambiguatePageNodesByWindowId iterations st =
     disambiguateRounds (case iterations of None \<Rightarrow> 3 | Some n \<Rightarrow> n) st"

text \<open>
  The choice of the node to swap with in the spec's words, for comparison: the first two
  filters as above, then, as its third and its fourth, any member whose container id
  equals the node's parent's live id.
\<close>

definition spec_swapWith :: "store \<Rightarrow> nat list \<Rightarrow> nat \<Rightarrow> nat list" where
  "spec_swapWith st items item =
     (if filter (swapFilter1 st item) items \<noteq> [] then filter (swapFilter1 st item) items
      else if filter (swapFilter2 st item) items \<noteq> [] then filter (swapFilter2 st item) items
      else filter (\<lambda>e. e \<noteq> item \<and> windowId (elem_at st e) = topParentChromeId st item) items)"

section \<open>Association of windows to window nodes\<close>

text \<open>
  \<^verbatim>\<open>associateWindowstoWindowNodes(requireChildrenCountMatch, prohibitMergingWindows)\<close>.

  A score is a JavaScript number built by adding, for every node counted, 1.0 and then
  0.00001 or 0. The model keeps it exactly, as the number of nodes counted and the
  number of them that added 0.00001: a score \<open>(m, b)\<close> stands for \<open>m + b / 100000\<close>.
  \<^verbatim>\<open>Number.prototype.toString\<close> of it is the integer part and, when the fraction is not
  zero, a point and the fraction's five digits without trailing zeros.
  The source adds doubles, and a sum of doubles can differ from the exact value in its
  last digits, and its string with it: four nodes of which two add 0.00001 give the
  double that prints as 4.000019999999999, where the model has 4.00002. A score to
  which no 0.00001 was added is an integer, and the same in both.
\<close>

type_synonym score = "nat \<times> nat"

definition strip_zeros :: "string \<Rightarrow> string" where
  "strip_zeros s = rev (dropWhile (\<lambda>c. c = CHR ''0'') (rev s))"

fun last_digits :: "nat \<Rightarrow> nat \<Rightarrow> string" where
  "last_digits 0 n = []"
| "last_digits (Suc k) n = last_digits k (n div 10) @ [char_of (48 + n mod 10)]"

fun drop_digits :: "nat \<Rightarrow> nat \<Rightarrow> nat" where
  "drop_digits 0 n = n"
| "drop_digits (Suc k) n = drop_digits k (n div 10)"

definition toString_score :: "score \<Rightarrow> string" where
  "toString_score = (\<lambda>(m, b).
     toString_nat (m + drop_digits 5 b)
     @ (let fraction = strip_zeros (last_digits 5 b)
        in if fraction = [] then [] else CHR ''.'' # fraction))"

text \<open>
  \<^verbatim>\<open>countValues\<close> holds the keys of \<^verbatim>\<open>counts\<close>, each the string of a score, parsed back
  to numbers. \<^verbatim>\<open>Array.prototype.sort()\<close> with no comparison function orders the
  elements by their string conversions, compared code unit by code unit, and the string
  of the number parsed from the string of a score is that string: the model sorts the
  keys. They are distinct, so the sorted array does not depend on the order they are
  enumerated in.
\<close>

fun string_less :: "string \<Rightarrow> string \<Rightarrow> bool" where
  "string_less [] [] = False"
| "string_less [] (d # ds) = True"
| "string_less (c # cs) [] = False"
| "string_less (c # cs) (d # ds) =
     ((of_char c :: nat) < of_char d \<or> (c = d \<and> string_less cs ds))"

fun insert_sorted :: "string \<Rightarrow> string list \<Rightarrow> string list" where
  "insert_sorted x [] = [x]"
| "insert_sorted x (y # ys) =
     (if string_less y x then y # insert_sorted x ys else x # y # ys)"

definition js_sort :: "string list \<Rightarrow> string list" where
  "js_sort xs = foldr insert_sorted xs []"

text \<open>
  \<^verbatim>\<open>windowTabCounts\<close>: the number of tabs of each window id, the tabs taken last to first.
\<close>

definition windowTabCounts :: "tab list \<Rightarrow> nat \<rightharpoonup> nat" where
  "windowTabCounts tabs =
     foldl (\<lambda>m t. m(tab_windowId t \<mapsto> (case m (tab_windowId t) of None \<Rightarrow> 0 | Some c \<Rightarrow> c) + 1))
       Map.empty (rev tabs)"

text \<open>
  The reduce over the descendants of one window node. \<^verbatim>\<open>groups\<close> maps a window id to
  the score of the node for it; its keys are integers, which \<^verbatim>\<open>for (var g in groups)\<close>
  enumerates in ascending order, so the model keeps it sorted by window id. A tab node
  whose \<^verbatim>\<open>chromeId\<close> no tab has makes \<^verbatim>\<open>tab.windowId\<close> throw. The count of the nodes that
  pass is \<^verbatim>\<open>winNodePageCounts\<close>, kept for all window nodes by their id.
\<close>

datatype error = TypeError

definition score_add :: "bool \<Rightarrow> score \<Rightarrow> score" where
  "score_add bonus = (\<lambda>(m, b). (m + 1, if bonus then b + 1 else b))"

fun add_score :: "nat \<Rightarrow> bool \<Rightarrow> (nat \<times> score) list \<Rightarrow> (nat \<times> score) list" where
  "add_score w bonus [] = [(w, score_add bonus (0, 0))]"
| "add_score w bonus ((w', s) # gs) =
     (if w = w' then (w', score_add bonus s) # gs
      else if w < w' then (w, score_add bonus (0, 0)) # (w', s) # gs
      else (w', s) # add_score w bonus gs)"

fun reduce_win ::
  "tab list \<Rightarrow> string \<Rightarrow> elem list \<Rightarrow> (nat \<times> score) list \<times> (string \<rightharpoonup> nat)
     \<Rightarrow> error + (nat \<times> score) list \<times> (string \<rightharpoonup> nat)" where
  "reduce_win tabs winId [] (groups, winNodePageCounts) = Inr (groups, winNodePageCounts)"
| "reduce_win tabs winId (e # es) (groups, winNodePageCounts) =
     (if \<not> isTab e then reduce_win tabs winId es (groups, winNodePageCounts)
      else (case find (\<lambda>t. Some (tab_id t) = chromeId e) tabs of
              None \<Rightarrow> Inl TypeError
            | Some t \<Rightarrow>
                if pinned e \<noteq> tab_pinned t \<or> incognito e \<noteq> tab_incognito t
                then reduce_win tabs winId es (groups, winNodePageCounts)
                else reduce_win tabs winId es
                       (add_score (tab_windowId t) (index e = Some (tab_index t)) groups,
                        winNodePageCounts(winId \<mapsto>
                          (case winNodePageCounts winId of None \<Rightarrow> 0 | Some c \<Rightarrow> c) + 1))))"

text \<open>
  \<^verbatim>\<open>counts\<close> maps the string of a score to the pairs of window node and window id that
  have it, in the order they were pushed. A window node is named by its position
  in \<^verbatim>\<open>wins\<close>.
\<close>

type_synonym pair = "nat \<times> nat"

fun counts_push :: "string \<Rightarrow> pair \<Rightarrow> (string \<times> pair list) list \<Rightarrow> (string \<times> pair list) list" where
  "counts_push c p [] = [(c, [p])]"
| "counts_push c p ((c', ps) # cs) =
     (if c = c' then (c', ps @ [p]) # cs else (c', ps) # counts_push c p cs)"

definition counts_get :: "(string \<times> pair list) list \<Rightarrow> string \<Rightarrow> pair list" where
  "counts_get cs c = (case map_of cs c of None \<Rightarrow> [] | Some ps \<Rightarrow> ps)"

text \<open>The loop over \<^verbatim>\<open>wins\<close>, last to first, that fills \<^verbatim>\<open>counts\<close> and \<^verbatim>\<open>winNodePageCounts\<close>.\<close>

fun count_wins ::
  "tab list \<Rightarrow> (nat \<times> node) list \<Rightarrow> (string \<times> pair list) list \<times> (string \<rightharpoonup> nat)
     \<Rightarrow> error + (string \<times> pair list) list \<times> (string \<rightharpoonup> nat)" where
  "count_wins tabs [] (counts, winNodePageCounts) = Inr (counts, winNodePageCounts)"
| "count_wins tabs ((i, win) # rest) (counts, winNodePageCounts) =
     (case reduce_win tabs (nid (node_elem win)) (map node_elem (flatten (node_children win)))
             ([], winNodePageCounts) of
        Inl err \<Rightarrow> Inl err
      | Inr (groups, winNodePageCounts') \<Rightarrow>
          count_wins tabs rest
            (foldl (\<lambda>cs (g, c). counts_push (toString_score c) (i, g) cs) counts groups,
             winNodePageCounts'))"

text \<open>
  The order in which the pairs are taken: \<^verbatim>\<open>countValues\<close> sorted, walked last to first,
  and for each value its pairs walked last to first. Each pair comes with the string of
  its score.
\<close>

definition processing_order :: "(string \<times> pair list) list \<Rightarrow> (string \<times> pair) list" where
  "processing_order counts =
     concat (map (\<lambda>countValue. map (\<lambda>p. (countValue, p)) (rev (counts_get counts countValue)))
                 (rev (js_sort (map fst counts))))"

text \<open>
  The body of the inner loop for one pair. What is asked of the tree is recorded:
  \<^verbatim>\<open>MergeWindows\<close> for \<^verbatim>\<open>mergeWindowsPreservingTabIndexes\<close> followed by \<^verbatim>\<open>tree.mergeNodes\<close>,
  \<^verbatim>\<open>RestoreWindow\<close> for \<^verbatim>\<open>tree.updateNode\<close> with the window id followed by
  \<^verbatim>\<open>tree.expandNode\<close>. The model looks a window id up in the tree as the function found
  it. The source looks it up in the tree as the earlier pairs of the pass left it; the
  two differ when a node that an earlier pair restored or merged away had that id when
  the function was entered.
\<close>

datatype win_action = MergeWindows string string | RestoreWindow string nat

record assign_state =
  usedWindowIds :: "nat list"
  usedWindowNodes :: "nat list"
  actions :: "win_action list"

definition assign_pair ::
  "bool \<Rightarrow> bool \<Rightarrow> node list \<Rightarrow> node list \<Rightarrow> (string \<rightharpoonup> nat) \<Rightarrow> (nat \<rightharpoonup> nat)
     \<Rightarrow> assign_state \<Rightarrow> pair \<Rightarrow> assign_state" where
  "assign_pair requireChildrenCountMatch prohibitMergingWindows tr wins winNodePageCounts tabCounts
     s = (\<lambda>(win, wid).
     if wid \<in> set (usedWindowIds s) \<or> win \<in> set (usedWindowNodes s) then s
     else if requireChildrenCountMatch
             \<and> winNodePageCounts (nid (node_elem (wins ! win))) \<noteq> tabCounts wid then s
     else (case getNodeByChromeId wid tr of
             Some existingWinNode \<Rightarrow>
               if \<not> prohibitMergingWindows
               then s\<lparr>usedWindowIds := usedWindowIds s @ [wid],
                      usedWindowNodes := usedWindowNodes s @ [win],
                      actions := actions s @ [MergeWindows (nid (node_elem existingWinNode))
                                                (nid (node_elem (wins ! win))),
                                              RestoreWindow (nid (node_elem (wins ! win))) wid]\<rparr>
               else s
           | None \<Rightarrow>
               s\<lparr>usedWindowIds := usedWindowIds s @ [wid],
                  usedWindowNodes := usedWindowNodes s @ [win],
                  actions := actions s @ [RestoreWindow (nid (node_elem (wins ! win))) wid]\<rparr>))"

definition restorable_wins :: "node list \<Rightarrow> node list" where
  "restorable_wins tr =
     filter (\<lambda>n. kind (node_elem n) = WindowNode \<and> restorable (node_elem n)) (flatten tr)"

definition associateWindowstoWindowNodes ::
  "bool \<Rightarrow> bool \<Rightarrow> node list \<Rightarrow> tab list \<Rightarrow> error + win_action list" where
  "associateWindowstoWindowNodes requireChildrenCountMatch prohibitMergingWindows tr tabs =
     (let wins = restorable_wins tr in
      if wins = [] then Inr []
      else (case count_wins tabs (rev (zip [0..<length wins] wins)) ([], Map.empty) of
              Inl err \<Rightarrow> Inl err
            | Inr (counts, winNodePageCounts) \<Rightarrow>
                Inr (actions
                  (foldl (assign_pair requireChildrenCountMatch prohibitMergingWindows tr wins
                            winNodePageCounts (windowTabCounts tabs))
                     \<lparr>usedWindowIds = [], usedWindowNodes = [], actions = []\<rparr>
                     (map snd (processing_order counts))))))"

text \<open>
  \<^verbatim>\<open>rectifyAssociations\<close>: the steps it runs, in order, each started when the one before
  has called back. The two flags of an association step are
  \<^verbatim>\<open>requireChildrenCountMatch\<close> and \<^verbatim>\<open>prohibitMergingWindows\<close>.
\<close>

datatype step =
    RebuildPageNodeWindowIds
  | AssociateWindowstoWindowNodes bool bool
  | DisambiguatePageNodesByWindowId
  | MovePageNodesToCorrectWindows
  | FixBadNodesStep
  | RemoveZeroChildWindowNodes
  | RebuildTabIndexStep
  | RebuildIndexes
  | RebuildParents
  | FixAllPinnedUnpinnedTabOrder
  | SwapPageNodesByIndex
  | ConformAllChromeTabIndexes bool
  | RemoveOldWindows
  | BackupPageTreeIfNone

definition rectifyAssociations :: "step list" where
  "rectifyAssociations =
     [RebuildPageNodeWindowIds,
      AssociateWindowstoWindowNodes True False,
      DisambiguatePageNodesByWindowId,
      AssociateWindowstoWindowNodes True True,
      DisambiguatePageNodesByWindowId,
      AssociateWindowstoWindowNodes False True,
      DisambiguatePageNodesByWindowId,
      AssociateWindowstoWindowNodes False False,
      DisambiguatePageNodesByWindowId,
      MovePageNodesToCorrectWindows,
      FixBadNodesStep,
      RemoveZeroChildWindowNodes,
      RebuildPageNodeWindowIds,
      RebuildTabIndexStep,
      RebuildIndexes,
      RebuildParents,
      FixAllPinnedUnpinnedTabOrder,
      SwapPageNodesByIndex,
      ConformAllChromeTabIndexes True,
      ConformAllChromeTabIndexes False,
      RemoveOldWindows,
      BackupPageTreeIfNone]"

text \<open>
  What a step asks of the tree when it is an association step; the other steps are not
  modelled and ask nothing here.
\<close>

definition run_step :: "step \<Rightarrow> node list \<Rightarrow> tab list \<Rightarrow> error + win_action list" where
  "run_step s tr tabs =
     (case s of
        AssociateWindowstoWindowNodes requireChildrenCountMatch prohibitMergingWindows \<Rightarrow>
          associateWindowstoWindowNodes requireChildrenCountMatch prohibitMergingWindows tr tabs
      | _ \<Rightarrow> Inr [])"

text \<open>
  The pairs of \<^verbatim>\<open>associateWindowstoWindowNodes\<close> in the order its last loop takes them,
  each with the string of its score.
\<close>

definition pairs_in_order :: "node list \<Rightarrow> tab list \<Rightarrow> error + (string \<times> pair) list" where
  "pairs_in_order tr tabs =
     (let wins = restorable_wins tr in
      case count_wins tabs (rev (zip [0..<length wins] wins)) ([], Map.empty) of
        Inl err \<Rightarrow> Inl err
      | Inr (counts, winNodePageCounts) \<Rightarrow> Inr (processing_order counts))"

section \<open>Merging two window nodes\<close>

text \<open>
  Modelled from the spec: \<^verbatim>\<open>tree.moveNodeRel\<close> is not among the source files. The spec
  has the tree move a node relative to another, \<^verbatim>\<open>before\<close>, \<^verbatim>\<open>after\<close>, \<^verbatim>\<open>prepend\<close> or
  \<^verbatim>\<open>append\<close>. The model works on the children of the destination window node; a node is
  found by its id. \<^verbatim>\<open>before\<close> and \<^verbatim>\<open>after\<close> make the moved node a sibling right before or
  right after the other node, \<^verbatim>\<open>prepend\<close> makes it the first child and \<^verbatim>\<open>append\<close> the last
  child of the other node. The loop below takes every descendant of the source window
  node after all of that descendant's own descendants, so a node has no children left
  when it is moved and arrives as a leaf.
\<close>

primrec insertBefore :: "string \<Rightarrow> node \<Rightarrow> node \<Rightarrow> node list" where
  "insertBefore target new (Node e cs) =
     (if nid e = target then [new, Node e cs]
      else [Node e (concat (map (insertBefore target new) cs))])"

primrec insertAfter :: "string \<Rightarrow> node \<Rightarrow> node \<Rightarrow> node list" where
  "insertAfter target new (Node e cs) =
     (if nid e = target then [Node e cs, new]
      else [Node e (concat (map (insertAfter target new) cs))])"

primrec prependInto :: "string \<Rightarrow> node \<Rightarrow> node \<Rightarrow> node" where
  "prependInto target new (Node e cs) =
     (if nid e = target then Node e (new # cs)
      else Node e (map (prependInto target new) cs))"

datatype relation = Before string | After string | Prepend string | PrependToWindow | AppendToWindow

definition moveNodeRel :: "elem \<Rightarrow> relation \<Rightarrow> node list \<Rightarrow> node list" where
  "moveNodeRel e rel dest =
     (case rel of
        Before target \<Rightarrow> concat (map (insertBefore target (Node e [])) dest)
      | After target \<Rightarrow> concat (map (insertAfter target (Node e [])) dest)
      | Prepend target \<Rightarrow> map (prependInto target (Node e [])) dest
      | PrependToWindow \<Rightarrow> Node e [] # dest
      | AppendToWindow \<Rightarrow> dest @ [Node e []])"

text \<open>\<^verbatim>\<open>preceding.children.length > 0\<close>, read from the tree as it is when the node is placed.\<close>

definition hasChildren :: "string \<Rightarrow> node list \<Rightarrow> bool" where
  "hasChildren target dest =
     (case find (\<lambda>n. nid (node_elem n) = target) (flatten dest) of
        Some n \<Rightarrow> node_children n \<noteq> []
      | None \<Rightarrow> False)"

text \<open>
  The body of the loop of \<^verbatim>\<open>mergeWindowsPreservingTabIndexes\<close> for one node of
  \<^verbatim>\<open>incoming\<close>. The state is the children of the destination, \<^verbatim>\<open>insertPosition\<close> (the id
  of the node it refers to) and the number of warnings written. \<^verbatim>\<open>existing\<close> is the list
  made before the loop. An index that is \<^verbatim>\<open>null\<close> counts as 0 in \<^verbatim>\<open>node.index + 1\<close> and
  gives -1 in \<^verbatim>\<open>node.index - 1\<close>, which no index equals.
\<close>

type_synonym merge_state = "node list \<times> string option \<times> nat"

definition placeAtInsertPosition :: "merge_state \<Rightarrow> elem \<Rightarrow> merge_state" where
  "placeAtInsertPosition = (\<lambda>(dest, insertPosition, warnings) node.
     case insertPosition of
       Some p \<Rightarrow> (moveNodeRel node (After p) dest, Some (nid node), warnings)
     | None \<Rightarrow> (moveNodeRel node PrependToWindow dest, Some (nid node), warnings))"

definition following :: "elem list \<Rightarrow> elem \<Rightarrow> elem option" where
  "following existing node =
     find (\<lambda>e. isTab e \<and> index e = Some (case index node of None \<Rightarrow> 1 | Some i \<Rightarrow> i + 1)) existing"

definition preceding :: "elem list \<Rightarrow> elem \<Rightarrow> elem option" where
  "preceding existing node =
     (case index node of
        None \<Rightarrow> None
      | Some i \<Rightarrow> if i = 0 then None else find (\<lambda>e. isTab e \<and> index e = Some (i - 1)) existing)"

definition mergeStep :: "elem list \<Rightarrow> merge_state \<Rightarrow> elem \<Rightarrow> merge_state" where
  "mergeStep existing = (\<lambda>(dest, insertPosition, warnings) node.
     if \<not> isTab node then placeAtInsertPosition (dest, insertPosition, warnings) node
     else if index node = Some 0 then placeAtInsertPosition (dest, insertPosition, warnings) node
     else (case following existing node of
             Some f \<Rightarrow> (moveNodeRel node (Before (nid f)) dest, Some (nid node), warnings)
           | None \<Rightarrow>
               (case preceding existing node of
                  Some p \<Rightarrow>
                    if hasChildren (nid p) dest
                    then (moveNodeRel node (Prepend (nid p)) dest, insertPosition, warnings)
                    else (moveNodeRel node (After (nid p)) dest, Some (nid node), warnings)
                | None \<Rightarrow> (moveNodeRel node AppendToWindow dest, insertPosition, warnings + 1))))"

text \<open>
  \<^verbatim>\<open>mergeWindowsPreservingTabIndexes(fromWindow, toWindow)\<close>: \<^verbatim>\<open>incoming\<close> and \<^verbatim>\<open>existing\<close>
  are the descendants of the two window nodes, and the loop takes \<^verbatim>\<open>incoming\<close> from its
  last element to its first. The result is the children of the destination, the last
  \<^verbatim>\<open>insertPosition\<close> and the number of warnings.
\<close>

definition mergeWindowsPreservingTabIndexes :: "node \<Rightarrow> node \<Rightarrow> merge_state" where
  "mergeWindowsPreservingTabIndexes fromWindow toWindow =
     (let incoming = map node_elem (flatten (node_children fromWindow));
          existing = map node_elem (flatten (node_children toWindow))
      in foldl (mergeStep existing) (node_children toWindow, None, 0) (rev incoming))"

text \<open>The indexes of the children of the destination, in order.\<close>

definition child_indexes :: "merge_state \<Rightarrow> nat option list" where
  "child_indexes = (\<lambda>(dest, insertPosition, warnings). map (index \<circ> node_elem) dest)"

section \<open>Example data\<close>

text \<open>
  A tab on \<^verbatim>\<open>http://example.com/\<close> at index 0 of window 1, a hibernated restorable
  window node holding one hibernated restorable page for that url at index 0, a live
  window node for window 1, and a state with one run in progress that has the tab pending.
\<close>

definition example_tab :: tab where
  "example_tab = \<lparr>tab_id = 7, tab_windowId = 1, tab_index = 0, tab_url = ''http://example.com/'',
     tab_pinned = False, tab_incognito = False, tab_active = False\<rparr>"

definition example_page :: elem where
  "example_page = \<lparr>kind = PageNode, nid = ''p100'', hibernated = True, restorable = True,
     chromeId = None, windowId = None, index = Some 0, url = ''http://example.com/'',
     title = ''Example'', referrer = [], historylength = 1, pinned = False, incognito = False\<rparr>"

definition example_window :: elem where
  "example_window = \<lparr>kind = WindowNode, nid = ''w200'', hibernated = True, restorable = True,
     chromeId = None, windowId = None, index = None, url = [],
     title = ''Last Session'', referrer = [], historylength = 1, pinned = False, incognito = False\<rparr>"

definition live_window :: elem where
  "live_window = example_window\<lparr>nid := ''w1'', hibernated := False, restorable := False, chromeId := Some 1\<rparr>"

definition example_tree :: "node list" where
  "example_tree = [Node example_window [Node example_page []]]"

definition example_state :: state where
  "example_state = \<lparr>associationRuns = [''r'' \<mapsto> \<lparr>runId = ''r'', total = 1, count = 0, tabIds = [7]\<rparr>],
     associationStubbornTabIds = [7 \<mapsto> 14], associationConcurrentRuns = 1,
     tree = example_tree, calls = []\<rparr>"


text \<open>Criteria as \<^verbatim>\<open>associateTabToPageNode\<close> builds them for the example tab, with a referrer.\<close>

definition example_params :: "string \<Rightarrow> params" where
  "example_params r = \<lparr>p_mustBeHibernated = True, p_mustBeRestorable = True,
     p_topParentMustBeRealOrRestorableWindow = True, p_url = ''http://example.com/'',
     p_title = None, p_referrer = Some r, p_historylength = Some 1, p_pinned = Some False,
     p_incognito = Some False, p_notMatchingNode = None\<rparr>"

text \<open>
  Three live windows 2, 3 and 1, each with one page of the same key: the first page
  records window 1, the second window 2, the third window 5.
\<close>

definition disamb_page :: "nat \<Rightarrow> nat \<Rightarrow> nat \<Rightarrow> elem" where
  "disamb_page cid wid idx = \<lparr>kind = PageNode, nid = CHR ''p'' # toString_nat cid, hibernated = False,
     restorable = False, chromeId = Some cid, windowId = Some wid, index = Some idx,
     url = ''http://example.com/'', title = ''Example'', referrer = [], historylength = 1,
     pinned = False, incognito = False\<rparr>"

definition disamb_window :: "nat \<Rightarrow> elem" where
  "disamb_window cid = \<lparr>kind = WindowNode, nid = CHR ''w'' # toString_nat cid, hibernated = False,
     restorable = False, chromeId = Some cid, windowId = None, index = None,
     url = [], title = ''Window'', referrer = [], historylength = 1,
     pinned = False, incognito = False\<rparr>"

definition disamb_tree :: "node list" where
  "disamb_tree = [Node (disamb_window 2) [Node (disamb_page 11 1 0) []],
                  Node (disamb_window 3) [Node (disamb_page 12 2 1) []],
                  Node (disamb_window 1) [Node (disamb_page 13 5 2) []]]"

text \<open>
  Two restorable window nodes whose pages are tabs of live window 20: ten pages under
  the first, two under the second, none at the index its tab has. No node has the window
  id 20 yet.
\<close>

definition restorable_window :: "string \<Rightarrow> elem" where
  "restorable_window i = example_window\<lparr>nid := i\<rparr>"

definition bug_tabs :: "tab list" where
  "bug_tabs = map (\<lambda>i. \<lparr>tab_id = i, tab_windowId = 20, tab_index = i - 1,
                           tab_url = ''http://example.com/'', tab_pinned = False,
                           tab_incognito = False, tab_active = False\<rparr>) [1..<13]"

definition bug_tree :: "node list" where
  "bug_tree =
     [Node (restorable_window ''wBig'') (map (\<lambda>i. Node (disamb_page i 20 30) []) [1..<11]),
      Node (restorable_window ''wSmall'') (map (\<lambda>i. Node (disamb_page i 20 30) []) [11..<13])]"

text \<open>
  A live window node for window 1, with no children, and a restorable window node whose
  one page is the one tab of window 1.
\<close>

definition merge_tabs :: "tab list" where
  "merge_tabs = [\<lparr>tab_id = 11, tab_windowId = 1, tab_index = 0,
                  tab_url = ''http://example.com/'', tab_pinned = False,
                  tab_incognito = False, tab_active = False\<rparr>]"

definition merge_tree :: "node list" where
  "merge_tree = [Node live_window [],
                 Node (restorable_window ''wOld'') [Node (disamb_page 11 1 0) []]]"

text \<open>
  A live window node and a restorable window node for window 1, each with tab pages at
  the given indexes as its children.
\<close>

definition merge_source :: "nat list \<Rightarrow> node" where
  "merge_source idxs = Node live_window (map (\<lambda>i. Node (disamb_page (10 + i) 1 i) []) idxs)"

definition merge_dest :: "nat list \<Rightarrow> node" where
  "merge_dest idxs = Node (restorable_window ''wOld'') (map (\<lambda>i. Node (disamb_page (20 + i) 1 i) []) idxs)"

text \<open>
  Two live windows 2 and 3, each with one page of the same key; the first page records
  window 8 and the second window 9, windows no node of the tree has.
\<close>

definition miss_tree :: "node list" where
  "miss_tree = [Node (disamb_window 2) [Node (disamb_page 11 8 0) []],
                Node (disamb_window 3) [Node (disamb_page 12 9 1) []]]"

text \<open>A window node whose children are two hibernated pages, no tabs.\<close>

definition hibernated_source :: node where
  "hibernated_source =
     Node live_window [Node ((disamb_page 31 1 0)\<lparr>hibernated := True\<rparr>) [],
                       Node ((disamb_page 32 1 1)\<lparr>hibernated := True\<rparr>) []]"

section \<open>Properties of the stubborn-tab counter\<close>

lemma threshold_iterations_15: "ASSOCIATE_STUBBORN_TAB_FALLBACK_THRESHOLD_ITERATIONS = 15"
  by (simp add: ASSOCIATE_STUBBORN_TAB_FALLBACK_THRESHOLD_ITERATIONS_def
      ASSOCIATE_STUBBORN_TAB_FALLBACK_THRESHOLD_MS_def ASSOCIATE_PAGES_CHECK_INTERVAL_MS_def)

lemma threshold_reached:
  "(of_nat n \<ge> ASSOCIATE_STUBBORN_TAB_FALLBACK_THRESHOLD_ITERATIONS) = (n \<ge> 15)"
proof -
  have "(of_nat n \<ge> (15::rat)) = (n \<ge> 15)"
    by (metis of_nat_le_iff of_nat_numeral)
  then show ?thesis by (simp add: threshold_iterations_15)
qed

lemma check_tabIds_Cons_fallback:
  "stubborn_get tbl a + 1 \<ge> 15 \<Longrightarrow>
     check_tabIds (a # r) tbl = (fst (check_tabIds r tbl), a # snd (check_tabIds r tbl))"
  by (simp add: Let_def threshold_reached split: prod.splits)

lemma check_tabIds_Cons_store:
  "\<not> stubborn_get tbl a + 1 \<ge> 15 \<Longrightarrow>
     check_tabIds (a # r) tbl = check_tabIds r (tbl(a \<mapsto> stubborn_get tbl a + 1))"
  by (simp add: Let_def threshold_reached)




section \<open>Properties of the association run\<close>

text \<open>
  Claim C10. For a tab whose incognito flag is set, \<^verbatim>\<open>tryAssociateTab\<close> returns false
  and leaves the state as it was: no call is made (no fast association, no blind
  association, no detail query, no query of the window's tabs) and the tab's id is not
  pushed to the run's pending list.
\<close>

theorem tryAssociateTab_incognito:
  "tab_incognito t \<Longrightarrow> tryAssociateTab isNewTabUrl rid t forceNewTabAssociation st = (False, st)"
  by (simp add: tryAssociateTab_def)

theorem tryAssociateTab_incognito_witness:
  "tab_incognito (example_tab\<lparr>tab_incognito := True\<rparr>)
   \<and> tryAssociateTab (\<lambda>u. u = ''chrome://newtab/'') ''r'' (example_tab\<lparr>tab_incognito := True\<rparr>) False example_state
       = (False, example_state)"
proof -
  have h: "tab_incognito (example_tab\<lparr>tab_incognito := True\<rparr>)" by simp
  from tryAssociateTab_incognito [OF h] h show ?thesis by simp
qed


lemma check_tabIds_keeps: "tbl t \<noteq> None \<Longrightarrow> fst (check_tabIds ids tbl) t \<noteq> None"
proof (induction ids arbitrary: tbl)
  case Nil
  then show ?case by simp
next
  case (Cons a ids)
  show ?case
  proof (cases "stubborn_get tbl a + 1 \<ge> 15")
    case True
    show ?thesis unfolding check_tabIds_Cons_fallback [OF True]
      using Cons.IH [of tbl] Cons.prems by simp
  next
    case False
    have "(tbl(a \<mapsto> stubborn_get tbl a + 1)) t \<noteq> None" using Cons.prems by simp
    with Cons.IH [of "tbl(a \<mapsto> stubborn_get tbl a + 1)"]
    show ?thesis unfolding check_tabIds_Cons_store [OF False] by blast
  qed
qed

lemma stubborn_do_call [simp]: "associationStubbornTabIds (do_call cs st) = associationStubbornTabIds st"
  by (simp add: do_call_def)
lemma runs_do_call [simp]: "associationRuns (do_call cs st) = associationRuns st"
  by (simp add: do_call_def)
lemma tree_do_call [simp]: "tree (do_call cs st) = tree st"
  by (simp add: do_call_def)
lemma calls_do_call [simp]: "calls (do_call cs st) = calls st @ cs"
  by (simp add: do_call_def)

lemma associateTabToPageNode_stubborn:
  "associationStubbornTabIds (associateTabToPageNode rid t ref hl st) = associationStubbornTabIds st"
  by (simp add: associateTabToPageNode_def Let_def split: option.splits)

lemma associateTabToPageNode_count:
  "associationRuns st rid = Some ri \<Longrightarrow>
     map_option count (associationRuns (associateTabToPageNode rid t ref hl st) rid) = Some (count ri + 1)"
  by (simp add: associateTabToPageNode_def Let_def split: option.splits)

lemma associatePagesCheck_keeps:
  "associationStubbornTabIds st t \<noteq> None \<Longrightarrow>
     associationStubbornTabIds (associatePagesCheck rid st) t \<noteq> None"
proof (cases "associationRuns st rid")
  case None
  assume "associationStubbornTabIds st t \<noteq> None"
  with None show ?thesis by (simp add: associatePagesCheck_def)
next
  case (Some ri)
  assume a: "associationStubbornTabIds st t \<noteq> None"
  obtain tbl fb where c: "check_tabIds (tabIds ri) (associationStubbornTabIds st) = (tbl, fb)"
    by (cases "check_tabIds (tabIds ri) (associationStubbornTabIds st)")
  from check_tabIds_keeps [of "associationStubbornTabIds st" t "tabIds ri"] a c
  have "tbl t \<noteq> None" by simp
  with Some c show ?thesis
    by (simp add: associatePagesCheck_def startAssociationRun_def endAssociationRun_def)
qed


text \<open>
  Claim C8, as the code has it. When \<^verbatim>\<open>associateTabToPageNode\<close> runs for a run still in
  progress, the run's count is incremented and the run's timeout is reset; for a run that
  has ended the table of runs is left as it is. \<^verbatim>\<open>associateTabToPageNode\<close> leaves the
  stubborn counter table as it is, and a tick (\<^verbatim>\<open>associatePagesCheck\<close>) deletes no entry
  of it: a tab that is bound or handed to the fallback keeps the entry it had.
\<close>

theorem detail_response_bookkeeping:
  "associationStubbornTabIds (associateTabToPageNode rid t ref hl st) = associationStubbornTabIds st
   \<and> (case associationRuns st rid of
         None \<Rightarrow> associationRuns (associateTabToPageNode rid t ref hl st) = associationRuns st
       | Some ri \<Rightarrow>
           map_option count (associationRuns (associateTabToPageNode rid t ref hl st) rid)
             = Some (count ri + 1)
           \<and> TimeoutReset rid \<in> set (calls (associateTabToPageNode rid t ref hl st)))
   \<and> dom (associationStubbornTabIds st) \<subseteq> dom (associationStubbornTabIds (associatePagesCheck rid' st))"
proof -
  have runs: "(case associationRuns st rid of
         None \<Rightarrow> associationRuns (associateTabToPageNode rid t ref hl st) = associationRuns st
       | Some ri \<Rightarrow>
           map_option count (associationRuns (associateTabToPageNode rid t ref hl st) rid)
             = Some (count ri + 1)
           \<and> TimeoutReset rid \<in> set (calls (associateTabToPageNode rid t ref hl st)))"
    by (simp add: associateTabToPageNode_def Let_def split: option.splits)
  have keeps: "dom (associationStubbornTabIds st) \<subseteq> dom (associationStubbornTabIds (associatePagesCheck rid' st))"
    using associatePagesCheck_keeps [of st _ rid'] by (auto simp: dom_def)
  from associateTabToPageNode_stubborn [of rid t ref hl st] runs keeps show ?thesis by blast
qed

theorem detail_response_witness:
  "associationRuns example_state ''r'' = Some \<lparr>runId = ''r'', total = 1, count = 0, tabIds = [7]\<rparr>
   \<and> map_option count (associationRuns
         (associateTabToPageNode ''r'' example_tab (Some []) (Some 1) example_state) ''r'') = Some 1
   \<and> 7 \<in> dom (associationStubbornTabIds (associatePagesCheck ''r'' example_state))"
proof -
  have r: "associationRuns example_state ''r'' = Some \<lparr>runId = ''r'', total = 1, count = 0, tabIds = [7]\<rparr>"
    by (simp add: example_state_def)
  have d: "7 \<in> dom (associationStubbornTabIds example_state)" by (simp add: example_state_def)
  from detail_response_bookkeeping [of "''r''" example_tab "Some []" "Some 1" example_state "''r''"] r d
  show ?thesis by auto
qed

text \<open>
  The claim as stated fails on the example state, whose run has tab 7 pending with a
  stubborn count of 14: the detail response binds the tab to the restorable page, and
  the tab is still in the run's pending list and in the counter table; the tick hands
  the tab to the fallback, and its counter entry is still there.
\<close>

theorem detail_response_counterexample:
  "associationRuns example_state ''r'' = Some \<lparr>runId = ''r'', total = 1, count = 0, tabIds = [7]\<rparr>
   \<and> tab_id example_tab = 7
   \<and> calls (associateTabToPageNode ''r'' example_tab (Some []) (Some 1) example_state)
        = [TimeoutReset ''r'', RestoreAssociatedPage example_tab example_page]
   \<and> map_option tabIds (associationRuns
         (associateTabToPageNode ''r'' example_tab (Some []) (Some 1) example_state) ''r'') = Some [7]
   \<and> associationStubbornTabIds
         (associateTabToPageNode ''r'' example_tab (Some []) (Some 1) example_state) 7 = Some 14
   \<and> ChromeTabsGet 7 ''r'' \<in> set (calls (associatePagesCheck ''r'' example_state))
   \<and> associationStubbornTabIds (associatePagesCheck ''r'' example_state) 7 = Some 14"
  by code_simp


section \<open>Properties of fast association and of the referrer rule\<close>

text \<open>
  Claim C5, as the code has it. \<^verbatim>\<open>tryFastAssociateTab\<close> binds the tab (it returns a node
  and calls \<^verbatim>\<open>restoreAssociatedPage\<close> on it) if and only if exactly one candidate exists,
  or at least one exists and the tab's url is not scriptable; the node bound is the
  first candidate. The candidates are the hibernated page nodes (restorable when the
  flag is set) equal to the tab on url, index, incognito and pinned among the
  descendants of the node whose \<^verbatim>\<open>chromeId\<close> is the tab's \<^verbatim>\<open>windowId\<close> when the tree has
  such a node, and in the whole tree otherwise. A tab with a non-scriptable url that is
  bound is bound with no detail query: \<^verbatim>\<open>getPageDetails\<close> is called only for a scriptable
  url. When nothing is bound the state is unchanged.
\<close>

theorem tryFastAssociateTab_binds_iff:
  "(fst (tryFastAssociateTab t mbr st) \<noteq> None)
      = (length (fastMatches t mbr (tree st)) = 1
         \<or> (length (fastMatches t mbr (tree st)) > 0 \<and> \<not> isScriptableUrl (tab_url t)))
   \<and> fastMatches t mbr (tree st)
      = filter (fastTest t mbr) (map node_elem (flatten
          (case getNodeByChromeId (tab_windowId t) (tree st) of
             Some existingWindow \<Rightarrow> node_children existingWindow
           | None \<Rightarrow> tree st)))
   \<and> (case fst (tryFastAssociateTab t mbr st) of
         None \<Rightarrow> snd (tryFastAssociateTab t mbr st) = st
       | Some m \<Rightarrow>
           m = hd (fastMatches t mbr (tree st))
           \<and> calls (snd (tryFastAssociateTab t mbr st))
               = calls st @ RestoreAssociatedPage t m
                     # (if isScriptableUrl (tab_url t)
                        then [GetPageDetails (tab_id t) ''store'' None] else []))"
proof -
  have a: "(fst (tryFastAssociateTab t mbr st) \<noteq> None)
      = (length (fastMatches t mbr (tree st)) = 1
         \<or> (length (fastMatches t mbr (tree st)) > 0 \<and> \<not> isScriptableUrl (tab_url t)))"
    by (cases "fastMatches t mbr (tree st)") (simp_all add: tryFastAssociateTab_def Let_def)
  have b: "fastMatches t mbr (tree st)
      = filter (fastTest t mbr) (map node_elem (flatten
          (case getNodeByChromeId (tab_windowId t) (tree st) of
             Some existingWindow \<Rightarrow> node_children existingWindow
           | None \<Rightarrow> tree st)))"
    by (simp add: fastMatches_def tree_filter_def Let_def)
  have c: "(case fst (tryFastAssociateTab t mbr st) of
         None \<Rightarrow> snd (tryFastAssociateTab t mbr st) = st
       | Some m \<Rightarrow>
           m = hd (fastMatches t mbr (tree st))
           \<and> calls (snd (tryFastAssociateTab t mbr st))
               = calls st @ RestoreAssociatedPage t m
                     # (if isScriptableUrl (tab_url t)
                        then [GetPageDetails (tab_id t) ''store'' None] else []))"
    by (cases "fastMatches t mbr (tree st)") (simp_all add: tryFastAssociateTab_def Let_def)
  from a b c show ?thesis by blast
qed

theorem tryFastAssociateTab_witness:
  "fastMatches example_tab True (tree example_state) = [example_page]
   \<and> fst (tryFastAssociateTab example_tab True example_state) \<noteq> None"
proof -
  have m: "fastMatches example_tab True (tree example_state) = [example_page]"
    by code_simp
  from tryFastAssociateTab_binds_iff [of example_tab True example_state]
  have "(fst (tryFastAssociateTab example_tab True example_state) \<noteq> None)
      = (length (fastMatches example_tab True (tree example_state)) = 1
         \<or> (length (fastMatches example_tab True (tree example_state)) > 0
             \<and> \<not> isScriptableUrl (tab_url example_tab)))"
    by (rule conjunct1)
  with m show ?thesis by simp
qed

text \<open>
  The claim as stated, with the candidates taken over the whole tree, fails when the
  tree has a node for the tab's window: the one hibernated restorable page equal to the
  tab sits under another window node, and the tab is not bound.
\<close>

theorem tryFastAssociateTab_counterexample:
  "spec_fastCandidates example_tab True (Node live_window [] # example_tree) = [example_page]
   \<and> fst (tryFastAssociateTab example_tab True
             (example_state\<lparr>tree := Node live_window [] # example_tree\<rparr>)) = None"
  by code_simp

text \<open>
  Claim C6. For a page node that passes the other criteria, when a referrer criterion is
  given and differs from the node's referrer, the node matches if and only if the
  criteria and the node are both pinned, or the two referrers are equal after each one
  that matches the blankable pattern is replaced by the empty string.
\<close>

theorem referrer_rule:
  assumes "kind e = PageNode"
    and "matched ps e"
    and "\<not> (p_topParentMustBeRealOrRestorableWindow ps
             \<and> (kind topParent \<noteq> WindowNode \<or> (\<not> restorable topParent \<and> hibernated topParent)))"
    and "p_referrer ps = Some r"
    and "r \<noteq> referrer e"
  shows "testNodeForAssociation ps (topParent, e)
           = ((p_pinned ps = Some True \<and> pinned e)
              \<or> (if CHROME_BLANKABLE_REFERRER_REGEXP r then [] else r)
                  = (if CHROME_BLANKABLE_REFERRER_REGEXP (referrer e) then [] else referrer e))"
proof -
  have blank: "fallbackReferrer x = (if CHROME_BLANKABLE_REFERRER_REGEXP x then [] else x)" for x
    by (auto simp: fallbackReferrer_def)
  from assms show ?thesis
    by (auto simp: testNodeForAssociation_def referrerMatch_def blank)
qed

theorem referrer_rule_witness:
  "kind example_page = PageNode
   \<and> matched (example_params ''http://www.google.com/url?sa=t&source=web'') example_page
   \<and> p_referrer (example_params ''http://www.google.com/url?sa=t&source=web'')
        = Some ''http://www.google.com/url?sa=t&source=web''
   \<and> ''http://www.google.com/url?sa=t&source=web'' \<noteq> referrer example_page
   \<and> testNodeForAssociation (example_params ''http://www.google.com/url?sa=t&source=web'')
         (example_window, example_page)
   \<and> \<not> testNodeForAssociation (example_params ''http://other.example/'')
         (example_window, example_page)"
proof -
  let ?g = "''http://www.google.com/url?sa=t&source=web''"
  let ?o = "''http://other.example/''"
  have k: "kind example_page = PageNode" by (simp add: example_page_def)
  have m: "matched (example_params ?g) example_page" by code_simp
  have m': "matched (example_params ?o) example_page" by code_simp
  have t: "\<not> (p_topParentMustBeRealOrRestorableWindow (example_params x)
             \<and> (kind example_window \<noteq> WindowNode
                 \<or> (\<not> restorable example_window \<and> hibernated example_window)))" for x
    by (simp add: example_window_def)
  have r: "p_referrer (example_params x) = Some x" for x by (simp add: example_params_def)
  have d: "?g \<noteq> referrer example_page" by (simp add: example_page_def)
  have d': "?o \<noteq> referrer example_page" by (simp add: example_page_def)
  have bg: "CHROME_BLANKABLE_REFERRER_REGEXP ?g" by code_simp
  have bo: "\<not> CHROME_BLANKABLE_REFERRER_REGEXP ?o" by code_simp
  have be: "\<not> CHROME_BLANKABLE_REFERRER_REGEXP (referrer example_page)" by code_simp
  have pp: "p_pinned (example_params x) = Some False" for x by (simp add: example_params_def)
  have rf: "referrer example_page = []" by (simp add: example_page_def)
  from referrer_rule [OF k m t r d] bg be rf
  have yes: "testNodeForAssociation (example_params ?g) (example_window, example_page)"
    by simp
  from referrer_rule [OF k m' t r d'] bo be rf pp
  have no: "\<not> testNodeForAssociation (example_params ?o) (example_window, example_page)"
    by simp
  from k m r d yes no show ?thesis by blast
qed


section \<open>Properties of the disambiguation\<close>

lemma disambiguateRounds_bound: "1 \<le> snd (disambiguateRounds iterations st) \<and> snd (disambiguateRounds iterations st) \<le> max 1 iterations"
proof (induction iterations st rule: disambiguateRounds.induct)
  case (1 iterations st)
  obtain st' swapCount where r: "disambiguateRound iterations st = (st', swapCount)"
    by (cases "disambiguateRound iterations st")
  show ?case
  proof (cases "swapCount > 0 \<and> iterations > 1")
    case True
    obtain st'' rounds where rr: "disambiguateRounds (iterations - 1) st' = (st'', rounds)"
      by (cases "disambiguateRounds (iterations - 1) st'")
    from "1.IH" [OF r [symmetric] True] rr have "1 \<le> rounds \<and> rounds \<le> max 1 (iterations - 1)" by simp
    moreover have "disambiguateRounds iterations st = (st'', rounds + 1)"
      using r True rr by (simp add: disambiguateRounds.simps [of iterations st])
    ultimately show ?thesis using True by auto
  next
    case False
    then have "disambiguateRounds iterations st = (st', 1)"
      using r by (subst disambiguateRounds.simps) auto
    then show ?thesis by simp
  qed
qed

text \<open>
  The model of \<^verbatim>\<open>disambiguatePageNodesByWindowId\<close> is a total function, its recursion
  decreasing \<^verbatim>\<open>iterations\<close>: it calls itself when \<^verbatim>\<open>swapCount\<close> is positive and
  \<^verbatim>\<open>iterations\<close> exceeds 1, with \<^verbatim>\<open>iterations - 1\<close>. The number of rounds is at least 1
  and at most the larger of 1 and \<^verbatim>\<open>iterations\<close>, and at most 3 when \<^verbatim>\<open>iterations\<close> is
  undefined.
\<close>

lemma disambiguateRounds_total_bounded:
  "disambiguateRounds iterations st =
     (case disambiguateRound iterations st of
        (st', swapCount) \<Rightarrow>
          if swapCount > 0 \<and> iterations > 1
          then (fst (disambiguateRounds (iterations - 1) st'),
                snd (disambiguateRounds (iterations - 1) st') + 1)
          else (st', 1))
   \<and> 1 \<le> snd (disambiguateRounds iterations st)
   \<and> snd (disambiguateRounds iterations st) \<le> max 1 iterations
   \<and> disambiguatePageNodesByWindowId None st = disambiguateRounds 3 st
   \<and> snd (disambiguatePageNodesByWindowId None st) \<le> 3"
proof -
  have eq: "disambiguateRounds iterations st =
     (case disambiguateRound iterations st of
        (st', swapCount) \<Rightarrow>
          if swapCount > 0 \<and> iterations > 1
          then (fst (disambiguateRounds (iterations - 1) st'),
                snd (disambiguateRounds (iterations - 1) st') + 1)
          else (st', 1))"
    by (subst disambiguateRounds.simps) (simp split: prod.splits)
  have d: "disambiguatePageNodesByWindowId None st = disambiguateRounds 3 st"
    by (simp add: disambiguatePageNodesByWindowId_def)
  from disambiguateRounds_bound [of 3 st] d
  have "snd (disambiguatePageNodesByWindowId None st) \<le> 3" by simp
  with eq d disambiguateRounds_bound [of iterations st] show ?thesis by blast
qed


text \<open>
  Claim C9, on the example of two pages of one key, each under a window it does not
  record, with no node to swap with: every filter is empty for both. The source
  increments \<^verbatim>\<open>swapCount\<close> before it looks for a node to swap with and keeps the
  increment when it finds none, so each round leaves the store as it was and counts 2,
  and the function calls itself until \<^verbatim>\<open>iterations\<close> is 1: three rounds, none with a
  swap. The claim, with the comment above the function, has it call itself only when a
  swap was made in the round.
\<close>

theorem disambiguate_reinvokes_without_swap:
  "groupBy (groupKey (store_of miss_tree)) (length (store_of miss_tree))
     = [(''http://example.com/||1|false|false'', [1, 3])]
   \<and> swapWith (store_of miss_tree) [1, 3] 1 = []
   \<and> swapWith (store_of miss_tree) [1, 3] 3 = []
   \<and> disambiguateRound 3 (store_of miss_tree) = (store_of miss_tree, 2)
   \<and> disambiguateRound 2 (store_of miss_tree) = (store_of miss_tree, 2)
   \<and> disambiguateRound 1 (store_of miss_tree) = (store_of miss_tree, 2)
   \<and> disambiguatePageNodesByWindowId None (store_of miss_tree) = (store_of miss_tree, 3)"
proof -
  have g: "groupBy (groupKey (store_of miss_tree)) (length (store_of miss_tree))
     = [(''http://example.com/||1|false|false'', [1, 3])]" by code_simp
  have s1: "swapWith (store_of miss_tree) [1, 3] 1 = []" by code_simp
  have s3: "swapWith (store_of miss_tree) [1, 3] 3 = []" by code_simp
  have r3: "disambiguateRound 3 (store_of miss_tree) = (store_of miss_tree, 2)" by code_simp
  have r2: "disambiguateRound 2 (store_of miss_tree) = (store_of miss_tree, 2)" by code_simp
  have r1: "disambiguateRound 1 (store_of miss_tree) = (store_of miss_tree, 2)" by code_simp
  from r1 have r1': "disambiguateRound (Suc 0) (store_of miss_tree) = (store_of miss_tree, 2)"
    by simp
  have "disambiguateRounds 1 (store_of miss_tree) = (store_of miss_tree, 1)"
    by (subst disambiguateRounds.simps) (simp add: r1')
  then have "disambiguateRounds 2 (store_of miss_tree) = (store_of miss_tree, 2)"
    by (subst disambiguateRounds.simps) (simp add: r2)
  then have "disambiguateRounds 3 (store_of miss_tree) = (store_of miss_tree, 3)"
    by (subst disambiguateRounds.simps) (simp add: r3)
  then have "disambiguatePageNodesByWindowId None (store_of miss_tree) = (store_of miss_tree, 3)"
    by (simp add: disambiguatePageNodesByWindowId_def)
  with g s1 s3 r3 r2 r1 show ?thesis by blast
qed

lemma swapFields_effect:
  assumes "item \<noteq> other" and "item < length st" and "other < length st"
  shows "swapFields item other st =
     st[item := ((elem_at st item)\<lparr>chromeId := chromeId (elem_at st other),
                                   windowId := windowId (elem_at st other),
                                   index := index (elem_at st other)\<rparr>, snd (st ! item)),
        other := ((elem_at st other)\<lparr>chromeId := chromeId (elem_at st item),
                                    windowId := windowId (elem_at st item),
                                    index := index (elem_at st item)\<rparr>, snd (st ! other))]"
  using assms
  by (simp add: swapFields_def Let_def updateNode_def elem_at_def list_update_swap [of item other])

lemma hd_filter_mem: "filter P xs \<noteq> [] \<Longrightarrow> hd (filter P xs) \<in> set xs \<and> P (hd (filter P xs))"
proof -
  assume "filter P xs \<noteq> []"
  then have "hd (filter P xs) \<in> set (filter P xs)" by (rule hd_in_set)
  then show ?thesis by simp
qed

lemma swapWith_cases:
  "swapWith st items item =
     (if list_ex (swapFilter1 st item) items then filter (swapFilter1 st item) items
      else if list_ex (swapFilter2 st item) items then filter (swapFilter2 st item) items
      else if list_ex (swapFilter3 st item) items then filter (swapFilter3 st item) items
      else filter (swapFilter4 st item) items)"
  by (simp add: swapWith_def list_ex_iff filter_empty_conv)

lemma swapWith_Nil:
  "swapWith st items item = [] \<Longrightarrow>
     list_all (\<lambda>e. \<not> swapFilter1 st item e \<and> \<not> swapFilter2 st item e
                  \<and> \<not> swapFilter3 st item e \<and> \<not> swapFilter4 st item e) items"
  by (auto simp: swapWith_cases list_all_iff list_ex_iff filter_empty_conv split: if_splits)

lemma swapWith_Cons:
  assumes "swapWith st items item = other # rest"
  shows "other \<in> set items \<and> other \<noteq> item
     \<and> other = hd (filter (if list_ex (swapFilter1 st item) items then swapFilter1 st item
                           else if list_ex (swapFilter2 st item) items then swapFilter2 st item
                           else if list_ex (swapFilter3 st item) items then swapFilter3 st item
                           else swapFilter4 st item) items)"
proof -
  let ?P = "if list_ex (swapFilter1 st item) items then swapFilter1 st item
            else if list_ex (swapFilter2 st item) items then swapFilter2 st item
            else if list_ex (swapFilter3 st item) items then swapFilter3 st item
            else swapFilter4 st item"
  have sw: "swapWith st items item = filter ?P items"
    by (simp add: swapWith_cases)
  with assms have ne: "filter ?P items \<noteq> []" and hd: "other = hd (filter ?P items)" by simp_all
  from hd_filter_mem [OF ne] hd have mem: "other \<in> set items" and P: "?P other" by simp_all
  from P have "other \<noteq> item"
    by (auto simp: swapFilter1_def swapFilter2_def swapFilter3_def swapFilter4_def split: if_splits)
  with mem hd show ?thesis by simp
qed

text \<open>
  Claim C3, as the code has it. For the node worked on, one of a group's nodes: a node
  whose \<^verbatim>\<open>windowId\<close> equals its top parent's \<^verbatim>\<open>chromeId\<close> is left alone. Otherwise the
  node to swap with is the first member of the group that passes the first of four
  filters that any member passes: (1) its \<^verbatim>\<open>windowId\<close> is the node's top parent's
  \<^verbatim>\<open>chromeId\<close>, its top parent's \<^verbatim>\<open>chromeId\<close> is the node's \<^verbatim>\<open>windowId\<close>, and the indexes are
  equal; (2) the same without the indexes; (3) its top parent's \<^verbatim>\<open>chromeId\<close> is the node's
  \<^verbatim>\<open>windowId\<close>; (4) its \<^verbatim>\<open>windowId\<close> is the node's top parent's \<^verbatim>\<open>chromeId\<close>. It is never the
  node itself. When no member passes any filter the store is unchanged. A swap
  exchanges \<^verbatim>\<open>chromeId\<close>, \<^verbatim>\<open>windowId\<close> and \<^verbatim>\<open>index\<close> between the two nodes and changes
  nothing else.
\<close>

theorem disambiguateItem_swap:
  assumes "list_all (\<lambda>k. k < length st) items"
    and "items \<noteq> []"
    and "item = items ! ((i + iterations) mod length items)"
  shows "disambiguateItem iterations items (st, swapCount) i =
     (if windowId (elem_at st item) = topParentChromeId st item then (st, swapCount)
      else (case swapWith st items item of
              [] \<Rightarrow> (st, swapCount + 1)
            | other # rest \<Rightarrow>
                (st[item := ((elem_at st item)\<lparr>chromeId := chromeId (elem_at st other),
                                              windowId := windowId (elem_at st other),
                                              index := index (elem_at st other)\<rparr>, snd (st ! item)),
                    other := ((elem_at st other)\<lparr>chromeId := chromeId (elem_at st item),
                                               windowId := windowId (elem_at st item),
                                               index := index (elem_at st item)\<rparr>, snd (st ! other))],
                 swapCount + 1)))
   \<and> (case swapWith st items item of
         [] \<Rightarrow> list_all (\<lambda>e. \<not> swapFilter1 st item e \<and> \<not> swapFilter2 st item e
                              \<and> \<not> swapFilter3 st item e \<and> \<not> swapFilter4 st item e) items
       | other # rest \<Rightarrow>
           other \<in> set items \<and> other \<noteq> item
           \<and> other = hd (filter (if list_ex (swapFilter1 st item) items then swapFilter1 st item
                                 else if list_ex (swapFilter2 st item) items then swapFilter2 st item
                                 else if list_ex (swapFilter3 st item) items then swapFilter3 st item
                                 else swapFilter4 st item) items))"
proof -
  from assms(2) have "(i + iterations) mod length items < length items" by simp
  with assms(3) have mem: "item \<in> set items" by simp
  with assms(1) have lt: "item < length st" by (simp add: list_all_iff)
  have second: "(case swapWith st items item of
         [] \<Rightarrow> list_all (\<lambda>e. \<not> swapFilter1 st item e \<and> \<not> swapFilter2 st item e
                              \<and> \<not> swapFilter3 st item e \<and> \<not> swapFilter4 st item e) items
       | other # rest \<Rightarrow>
           other \<in> set items \<and> other \<noteq> item
           \<and> other = hd (filter (if list_ex (swapFilter1 st item) items then swapFilter1 st item
                                 else if list_ex (swapFilter2 st item) items then swapFilter2 st item
                                 else if list_ex (swapFilter3 st item) items then swapFilter3 st item
                                 else swapFilter4 st item) items))"
  proof (cases "swapWith st items item")
    case Nil
    show ?thesis unfolding Nil list.case using swapWith_Nil [OF Nil] .
  next
    case (Cons other rest)
    show ?thesis unfolding Cons list.case using swapWith_Cons [OF Cons] .
  qed
  have first: "disambiguateItem iterations items (st, swapCount) i =
     (if windowId (elem_at st item) = topParentChromeId st item then (st, swapCount)
      else (case swapWith st items item of
              [] \<Rightarrow> (st, swapCount + 1)
            | other # rest \<Rightarrow>
                (st[item := ((elem_at st item)\<lparr>chromeId := chromeId (elem_at st other),
                                              windowId := windowId (elem_at st other),
                                              index := index (elem_at st other)\<rparr>, snd (st ! item)),
                    other := ((elem_at st other)\<lparr>chromeId := chromeId (elem_at st item),
                                               windowId := windowId (elem_at st item),
                                               index := index (elem_at st item)\<rparr>, snd (st ! other))],
                 swapCount + 1)))"
  proof (cases "swapWith st items item")
    case Nil
    then show ?thesis using assms(3) by (simp add: disambiguateItem_def Let_def)
  next
    case (Cons other rest)
    from swapWith_Cons [OF Cons] have om: "other \<in> set items" and ne: "item \<noteq> other" by auto
    from om assms(1) have "other < length st" by (simp add: list_all_iff)
    from swapFields_effect [OF ne lt this] Cons assms(3) show ?thesis
      by (simp add: disambiguateItem_def Let_def)
  qed
  from first second show ?thesis by (rule conjI)
qed

theorem disambiguateItem_swap_witness:
  "list_all (\<lambda>k. k < length (store_of disamb_tree)) [1, 3, 5]
   \<and> [1, 3, 5] \<noteq> ([] :: nat list)
   \<and> (1::nat) = [1, 3, 5] ! ((0 + 3) mod length [1, 3, 5 :: nat])
   \<and> swapWith (store_of disamb_tree) [1, 3, 5] 1 = [5]
   \<and> map (\<lambda>(e, t). (chromeId e, windowId e, index e))
        (fst (disambiguateItem 3 [1, 3, 5] (store_of disamb_tree, 0) 0))
      = [(Some 2, None, None), (Some 13, Some 5, Some 2), (Some 3, None, None),
         (Some 12, Some 2, Some 1), (Some 1, None, None), (Some 11, Some 1, Some 0)]"
proof -
  have h1: "list_all (\<lambda>k. k < length (store_of disamb_tree)) [1, 3, 5]" by code_simp
  have h2: "[1, 3, 5] \<noteq> ([] :: nat list)" by simp
  have h3: "(1::nat) = [1, 3, 5] ! ((0 + 3) mod length [1, 3, 5 :: nat])" by simp
  have sw: "swapWith (store_of disamb_tree) [1, 3, 5] 1 = [5]" by code_simp
  have mis: "windowId (elem_at (store_of disamb_tree) 1) \<noteq> topParentChromeId (store_of disamb_tree) 1"
    by code_simp
  from disambiguateItem_swap [OF h1 h2 h3, of 0] sw mis
  have "fst (disambiguateItem 3 [1, 3, 5] (store_of disamb_tree, 0) 0)
     = (store_of disamb_tree)
         [1 := ((elem_at (store_of disamb_tree) 1)\<lparr>chromeId := chromeId (elem_at (store_of disamb_tree) 5),
                windowId := windowId (elem_at (store_of disamb_tree) 5),
                index := index (elem_at (store_of disamb_tree) 5)\<rparr>, snd (store_of disamb_tree ! 1)),
          5 := ((elem_at (store_of disamb_tree) 5)\<lparr>chromeId := chromeId (elem_at (store_of disamb_tree) 1),
                windowId := windowId (elem_at (store_of disamb_tree) 1),
                index := index (elem_at (store_of disamb_tree) 1)\<rparr>, snd (store_of disamb_tree ! 5))]"
    by simp
  also have "map (\<lambda>(e, t). (chromeId e, windowId e, index e)) \<dots>
      = [(Some 2, None, None), (Some 13, Some 5, Some 2), (Some 3, None, None),
         (Some 12, Some 2, Some 1), (Some 1, None, None), (Some 11, Some 1, Some 0)]"
    by code_simp
  finally have res: "map (\<lambda>(e, t). (chromeId e, windowId e, index e))
        (fst (disambiguateItem 3 [1, 3, 5] (store_of disamb_tree, 0) 0))
      = [(Some 2, None, None), (Some 13, Some 5, Some 2), (Some 3, None, None),
         (Some 12, Some 2, Some 1), (Some 1, None, None), (Some 11, Some 1, Some 0)]" .
  from h1 h2 h3 sw res show ?thesis by blast
qed

text \<open>
  The claim as stated has, as its third filter, any member whose container id equals
  the node's parent's live id. On the example the first page (position 1, recording
  window 1 under window 2) has no transposed partner; the page at position 3 records
  window 2, the page at position 5 sits under window 1. The claim's third filter picks
  position 3, the code picks position 5.
\<close>

theorem disambiguate_priority_counterexample:
  "groupBy (groupKey (store_of disamb_tree)) (length (store_of disamb_tree))
     = [(''http://example.com/||1|false|false'', [1, 3, 5])]
   \<and> windowId (elem_at (store_of disamb_tree) 1) \<noteq> topParentChromeId (store_of disamb_tree) 1
   \<and> spec_swapWith (store_of disamb_tree) [1, 3, 5] 1 = [3]
   \<and> swapWith (store_of disamb_tree) [1, 3, 5] 1 = [5]"
  by code_simp


section \<open>Properties of the association of windows\<close>

text \<open>
  Claim C1, on the example of two restorable window nodes with ten and with two pages
  in live window 20 (scores 10 and 2, both exact as JavaScript numbers). The sort of
  \<^verbatim>\<open>countValues\<close> compares strings, so 10 sorts before 2 and the loop, walking the sorted
  array from its end, takes the pair of score 2 first: the node with two pages is given
  the window, and the node with ten pages is skipped. The claim has the pairs taken in
  descending order of score.
\<close>

theorem associateWindows_string_sort:
  "pairs_in_order bug_tree bug_tabs = Inr [(''2'', (1, 20)), (''10'', (0, 20))]
   \<and> map (nid \<circ> node_elem) (restorable_wins bug_tree) = [''wBig'', ''wSmall'']
   \<and> associateWindowstoWindowNodes False True bug_tree bug_tabs
       = Inr [RestoreWindow ''wSmall'' 20]"
  by code_simp

lemma assign_pair_stringent:
  "winNodePageCounts (nid (node_elem (wins ! win))) \<noteq> tabCounts wid \<Longrightarrow>
     assign_pair True prohibitMergingWindows tr wins winNodePageCounts tabCounts s (win, wid) = s"
  by (simp add: assign_pair_def)

lemma assign_pair_prohibited:
  "getNodeByChromeId wid tr \<noteq> None \<Longrightarrow>
     assign_pair requireChildrenCountMatch True tr wins winNodePageCounts tabCounts s (win, wid) = s"
  by (auto simp: assign_pair_def)

lemma assign_pair_merge:
  "getNodeByChromeId wid tr = Some existingWinNode
   \<and> wid \<notin> set (usedWindowIds s) \<and> win \<notin> set (usedWindowNodes s)
   \<and> (requireChildrenCountMatch \<longrightarrow>
         winNodePageCounts (nid (node_elem (wins ! win))) = tabCounts wid) \<Longrightarrow>
     actions (assign_pair requireChildrenCountMatch False tr wins winNodePageCounts tabCounts s (win, wid))
       = actions s @ [MergeWindows (nid (node_elem existingWinNode)) (nid (node_elem (wins ! win))),
                      RestoreWindow (nid (node_elem (wins ! win))) wid]"
  by (auto simp: assign_pair_def)

lemma assign_pair_relaxed:
  "getNodeByChromeId wid tr = None
   \<and> wid \<notin> set (usedWindowIds s) \<and> win \<notin> set (usedWindowNodes s) \<Longrightarrow>
     actions (assign_pair False prohibitMergingWindows tr wins winNodePageCounts tabCounts s (win, wid))
       = actions s @ [RestoreWindow (nid (node_elem (wins ! win))) wid]"
  by (auto simp: assign_pair_def)

text \<open>
  Claim C2, as the code has it. The association steps of \<^verbatim>\<open>rectifyAssociations\<close> are its
  steps 2, 4, 6 and 8: step 2 is stringent with merging permitted, step 4 stringent
  with merging prohibited, step 6 relaxed with merging prohibited, step 8 relaxed with
  merging permitted. Stringent: a pair whose window node's count of matching tab
  nodes differs from the window's count of tabs is skipped. Merging prohibited: a pair
  whose window id a node of the tree already has is skipped. Merging permitted: for
  such a pair, not yet used and passing the count requirement if there is one, the
  node that has the id is merged into the window node, which is then restored with the
  id. Relaxed: an unused pair whose window id no node has is restored whatever the
  counts.
\<close>

theorem rectifyAssociations_order:
  "rectifyAssociations ! 1 = AssociateWindowstoWindowNodes True False
   \<and> rectifyAssociations ! 3 = AssociateWindowstoWindowNodes True True
   \<and> rectifyAssociations ! 5 = AssociateWindowstoWindowNodes False True
   \<and> rectifyAssociations ! 7 = AssociateWindowstoWindowNodes False False
   \<and> (\<forall>r p tr tabs. run_step (AssociateWindowstoWindowNodes r p) tr tabs
                         = associateWindowstoWindowNodes r p tr tabs)
   \<and> (winNodePageCounts (nid (node_elem (wins ! win))) \<noteq> tabCounts wid \<longrightarrow>
        assign_pair True prohibitMergingWindows tr wins winNodePageCounts tabCounts s (win, wid) = s)
   \<and> (getNodeByChromeId wid tr \<noteq> None \<longrightarrow>
        assign_pair requireChildrenCountMatch True tr wins winNodePageCounts tabCounts s (win, wid) = s)
   \<and> (getNodeByChromeId wid tr = Some existingWinNode
        \<and> wid \<notin> set (usedWindowIds s) \<and> win \<notin> set (usedWindowNodes s)
        \<and> (requireChildrenCountMatch \<longrightarrow>
              winNodePageCounts (nid (node_elem (wins ! win))) = tabCounts wid) \<longrightarrow>
        actions (assign_pair requireChildrenCountMatch False tr wins winNodePageCounts tabCounts
                   s (win, wid))
          = actions s @ [MergeWindows (nid (node_elem existingWinNode))
                           (nid (node_elem (wins ! win))),
                         RestoreWindow (nid (node_elem (wins ! win))) wid])
   \<and> (getNodeByChromeId wid tr = None
        \<and> wid \<notin> set (usedWindowIds s) \<and> win \<notin> set (usedWindowNodes s) \<longrightarrow>
        actions (assign_pair False prohibitMergingWindows tr wins winNodePageCounts tabCounts
                   s (win, wid))
          = actions s @ [RestoreWindow (nid (node_elem (wins ! win))) wid])"
proof (intro conjI impI allI)
  show "rectifyAssociations ! 1 = AssociateWindowstoWindowNodes True False"
    by (simp add: rectifyAssociations_def)
  show "rectifyAssociations ! 3 = AssociateWindowstoWindowNodes True True"
    by (simp add: rectifyAssociations_def)
  show "rectifyAssociations ! 5 = AssociateWindowstoWindowNodes False True"
    by (simp add: rectifyAssociations_def)
  show "rectifyAssociations ! 7 = AssociateWindowstoWindowNodes False False"
    by (simp add: rectifyAssociations_def)
  show "run_step (AssociateWindowstoWindowNodes r p) tr' tabs
          = associateWindowstoWindowNodes r p tr' tabs" for r p tr' tabs
    by (simp add: run_step_def)
  show "assign_pair True prohibitMergingWindows tr wins winNodePageCounts tabCounts s (win, wid) = s"
    if "winNodePageCounts (nid (node_elem (wins ! win))) \<noteq> tabCounts wid"
    using that by (rule assign_pair_stringent)
  show "assign_pair requireChildrenCountMatch True tr wins winNodePageCounts tabCounts s (win, wid) = s"
    if "getNodeByChromeId wid tr \<noteq> None"
    using that by (rule assign_pair_prohibited)
  show "actions (assign_pair requireChildrenCountMatch False tr wins winNodePageCounts tabCounts
                   s (win, wid))
          = actions s @ [MergeWindows (nid (node_elem existingWinNode))
                           (nid (node_elem (wins ! win))),
                         RestoreWindow (nid (node_elem (wins ! win))) wid]"
    if "getNodeByChromeId wid tr = Some existingWinNode
        \<and> wid \<notin> set (usedWindowIds s) \<and> win \<notin> set (usedWindowNodes s)
        \<and> (requireChildrenCountMatch \<longrightarrow>
              winNodePageCounts (nid (node_elem (wins ! win))) = tabCounts wid)"
    using that by (rule assign_pair_merge)
  show "actions (assign_pair False prohibitMergingWindows tr wins winNodePageCounts tabCounts
                   s (win, wid))
          = actions s @ [RestoreWindow (nid (node_elem (wins ! win))) wid]"
    if "getNodeByChromeId wid tr = None
        \<and> wid \<notin> set (usedWindowIds s) \<and> win \<notin> set (usedWindowNodes s)"
    using that by (rule assign_pair_relaxed)
qed

theorem rectifyAssociations_order_witness:
  "getNodeByChromeId 1 merge_tree = Some (Node live_window [])
   \<and> run_step (rectifyAssociations ! 3) merge_tree merge_tabs = Inr []
   \<and> actions (assign_pair True False merge_tree (restorable_wins merge_tree)
                 [''wOld'' \<mapsto> 1] [1 \<mapsto> 1]
                 \<lparr>usedWindowIds = [], usedWindowNodes = [], actions = []\<rparr> (0, 1))
       = [MergeWindows ''w1'' ''wOld'', RestoreWindow ''wOld'' 1]"
proof -
  have g: "getNodeByChromeId 1 merge_tree = Some (Node live_window [])" by code_simp
  have r: "run_step (rectifyAssociations ! 3) merge_tree merge_tabs = Inr []" by code_simp
  have w: "nid (node_elem (restorable_wins merge_tree ! 0)) = ''wOld''" by code_simp
  have l: "nid (node_elem (Node live_window [])) = ''w1''" by code_simp
  note t = rectifyAssociations_order [of "[''wOld'' \<mapsto> 1]" "restorable_wins merge_tree" 0 "[1 \<mapsto> 1]" 1
      True merge_tree "\<lparr>usedWindowIds = [], usedWindowNodes = [], actions = []\<rparr>" True
      "Node live_window []"]
  from t g w l have "actions (assign_pair True False merge_tree (restorable_wins merge_tree)
                 [''wOld'' \<mapsto> 1] [1 \<mapsto> 1]
                 \<lparr>usedWindowIds = [], usedWindowNodes = [], actions = []\<rparr> (0, 1))
       = [MergeWindows ''w1'' ''wOld'', RestoreWindow ''wOld'' 1]"
    by simp
  with g r show ?thesis by blast
qed

text \<open>
  The claim as stated has step 2 prohibit merging and step 4 permit it. On the example
  of a live window node for window 1 and a restorable window node whose page is the tab
  of window 1, step 2 merges the live node into the restorable one and step 4 does
  nothing.
\<close>

theorem rectifyAssociations_order_counterexample:
  "rectifyAssociations ! 1 = AssociateWindowstoWindowNodes True False
   \<and> run_step (rectifyAssociations ! 1) merge_tree merge_tabs
       = Inr [MergeWindows ''w1'' ''wOld'', RestoreWindow ''wOld'' 1]
   \<and> rectifyAssociations ! 3 = AssociateWindowstoWindowNodes True True
   \<and> run_step (rectifyAssociations ! 3) merge_tree merge_tabs = Inr []"
  by code_simp


section \<open>Properties of the merge of two window nodes\<close>

text \<open>
  Claim C4, on examples. The loop takes the descendants of the source from the last to
  the first, and a node with index 0 or no tab goes after the node \<^verbatim>\<open>insertPosition\<close>
  refers to when there is one. Merging children at positions 0 and 2 into a
  destination holding position 1 leaves the destination with the positions 1, 2, 0;
  positions 0, 1, 2 into a destination holding 1 give 1, 2, 0, 1; positions 0, 1 into a
  destination holding 2, 3 give 1, 0, 2, 3; two hibernated pages come out in reverse
  order. The claim has the child with index 0 at the front and the order of the
  positions kept.
\<close>

theorem merge_order_failing_input:
  "map (index \<circ> node_elem) (node_children (merge_source [0, 2])) = [Some 0, Some 2]
   \<and> map (index \<circ> node_elem) (node_children (merge_dest [1])) = [Some 1]
   \<and> child_indexes (mergeWindowsPreservingTabIndexes (merge_source [0, 2]) (merge_dest [1]))
       = [Some 1, Some 2, Some 0]
   \<and> child_indexes (mergeWindowsPreservingTabIndexes (merge_source [0, 1, 2]) (merge_dest [1]))
       = [Some 1, Some 2, Some 0, Some 1]
   \<and> child_indexes (mergeWindowsPreservingTabIndexes (merge_source [0, 1]) (merge_dest [2, 3]))
       = [Some 1, Some 0, Some 2, Some 3]
   \<and> map (nid \<circ> node_elem) (node_children hibernated_source) = [''p31'', ''p32'']
   \<and> map (nid \<circ> node_elem)
        (fst (mergeWindowsPreservingTabIndexes hibernated_source (merge_dest [])))
       = [''p32'', ''p31'']"
  by code_simp


section \<open>Properties of a row of runs and ticks\<close>



lemma concurrent_do_call [simp]:
  "associationConcurrentRuns (do_call cs st) = associationConcurrentRuns st"
  by (simp add: do_call_def)

lemma do_call_Nil [simp]: "do_call [] st = st"
  by (simp add: do_call_def)





















end
